theory Spec2Isabelle
  imports Main "HOL-Library.Word" "HOL-Library.Sublist"
begin

unbundle bit_operations_syntax

section \<open>Kubernetes objects, errors and the client\<close>

text \<open>
  Go's \<^verbatim>\<open>int32\<close> and \<^verbatim>\<open>int\<close> (64 bits on the platforms the operator is built for)
  are words; comparisons with zero read them as signed numbers through \<open>sint\<close>.
\<close>

type_synonym int32 = "32 word"
type_synonym go_int = "64 word"

text \<open>
  Errors. The first three are API status errors as the client returns them; \<open>Errorf\<close> is
  \<^verbatim>\<open>fmt.Errorf("... %+v", err)\<close>, which formats the inner error into a new plain error;
  \<open>ErrorsNew\<close> and \<open>Wrap\<close> are \<^verbatim>\<open>errors.New\<close> and \<^verbatim>\<open>errors.Wrap\<close> of pkg/errors; \<open>Wrapf\<close>
  is \<^verbatim>\<open>errors.Wrapf\<close>, kept with its format string and its arguments.
\<close>

datatype error =
    NotFound
  | AlreadyExists
  | OtherStatus string
  | ErrorsNew string
  | Errorf string error
  | Wrap error string
  | Wrapf error string "string list"

text \<open>
  \<^verbatim>\<open>errors.IsNotFound\<close> and \<^verbatim>\<open>errors.IsAlreadyExists\<close> of apimachinery look at the reason
  of a status error; an error built by \<^verbatim>\<open>fmt.Errorf\<close> or pkg/errors is not a status error.
\<close>

fun IsNotFound :: "error \<Rightarrow> bool" where
  "IsNotFound NotFound = True"
| "IsNotFound _ = False"

fun IsAlreadyExists :: "error \<Rightarrow> bool" where
  "IsAlreadyExists AlreadyExists = True"
| "IsAlreadyExists _ = False"

typedecl Volume
typedecl VolumeMount

record ObjectMeta =
  Name :: string
  Namespace :: string
  Labels :: "string \<rightharpoonup> string"

record SecurityContext =
  Privileged :: "bool option"
  RunAsUser :: "64 word option"
  RunAsNonRoot :: "bool option"
  ReadOnlyRootFilesystem :: "bool option"

record Container =
  Name :: string
  Args :: "string list"
  Command :: "string list"
  Image :: string
  ImagePullPolicy :: string
  VolumeMounts :: "VolumeMount list"
  SecurityContext :: SecurityContext

record PodSecurityContext =
  RunAsUser :: "64 word option"
  RunAsNonRoot :: "bool option"

record PodSpec =
  Containers :: "Container list"
  NodeName :: string
  RestartPolicy :: string
  HostNetwork :: bool
  DNSPolicy :: string
  Volumes :: "Volume list"
  SecurityContext :: PodSecurityContext

record PodTemplateSpec =
  ObjectMeta :: ObjectMeta
  Spec :: PodSpec

record JobSpec =
  Template :: PodTemplateSpec

record JobStatus =
  Active :: int32
  Succeeded :: int32
  Failed :: int32

record Job =
  ObjectMeta :: ObjectMeta
  Spec :: JobSpec
  Status :: JobStatus

record ConfigMap =
  ObjectMeta :: ObjectMeta
  Data :: "string \<rightharpoonup> string"

record Node =
  ObjectMeta :: ObjectMeta

record DeleteOptions =
  GracePeriodSeconds :: "64 word option"
  PropagationPolicy :: "string option"

text \<open>
  The clientset is the external store. Its operations are parameters: each takes the
  store's state and returns its answer with the new state. The functions of the program
  reach the store only through the wrappers below, which also append the request, with the
  answer it got, to a log of calls; \<^verbatim>\<open>time.Sleep\<close> is logged with its duration in seconds.
  The logger's output is not part of the model: no branch depends on it.
\<close>

record 's Clientset =
  Jobs_Get :: "string \<Rightarrow> string \<Rightarrow> 's \<Rightarrow> (error + Job) \<times> 's"
  Jobs_Create :: "string \<Rightarrow> Job \<Rightarrow> 's \<Rightarrow> (error + Job) \<times> 's"
  Jobs_Delete :: "string \<Rightarrow> string \<Rightarrow> DeleteOptions \<Rightarrow> 's \<Rightarrow> error option \<times> 's"
  ConfigMaps_Get :: "string \<Rightarrow> string \<Rightarrow> 's \<Rightarrow> (error + ConfigMap) \<times> 's"
  ConfigMaps_Create :: "string \<Rightarrow> ConfigMap \<Rightarrow> 's \<Rightarrow> (error + ConfigMap) \<times> 's"

datatype call =
    CallJobsGet string string "error + Job"
  | CallJobsCreate string Job "error + Job"
  | CallJobsDelete string string DeleteOptions "error option"
  | CallConfigMapsGet string string "error + ConfigMap"
  | CallConfigMapsCreate string ConfigMap "error + ConfigMap"
  | CallSleep nat

record 's world =
  store :: 's
  calls :: "call list"

definition jobsGet :: "'s Clientset \<Rightarrow> string \<Rightarrow> string \<Rightarrow> 's world \<Rightarrow> (error + Job) \<times> 's world" where
  "jobsGet clientset namespace name w =
     (case Jobs_Get clientset namespace name (store w) of
        (r, s) \<Rightarrow> (r, \<lparr>store = s, calls = calls w @ [CallJobsGet namespace name r]\<rparr>))"

definition jobsCreate :: "'s Clientset \<Rightarrow> string \<Rightarrow> Job \<Rightarrow> 's world \<Rightarrow> (error + Job) \<times> 's world" where
  "jobsCreate clientset namespace job w =
     (case Jobs_Create clientset namespace job (store w) of
        (r, s) \<Rightarrow> (r, \<lparr>store = s, calls = calls w @ [CallJobsCreate namespace job r]\<rparr>))"

definition jobsDelete ::
  "'s Clientset \<Rightarrow> string \<Rightarrow> string \<Rightarrow> DeleteOptions \<Rightarrow> 's world \<Rightarrow> error option \<times> 's world" where
  "jobsDelete clientset namespace name options w =
     (case Jobs_Delete clientset namespace name options (store w) of
        (r, s) \<Rightarrow> (r, \<lparr>store = s, calls = calls w @ [CallJobsDelete namespace name options r]\<rparr>))"

definition configMapsGet ::
  "'s Clientset \<Rightarrow> string \<Rightarrow> string \<Rightarrow> 's world \<Rightarrow> (error + ConfigMap) \<times> 's world" where
  "configMapsGet clientset namespace name w =
     (case ConfigMaps_Get clientset namespace name (store w) of
        (r, s) \<Rightarrow> (r, \<lparr>store = s, calls = calls w @ [CallConfigMapsGet namespace name r]\<rparr>))"

definition configMapsCreate ::
  "'s Clientset \<Rightarrow> string \<Rightarrow> ConfigMap \<Rightarrow> 's world \<Rightarrow> (error + ConfigMap) \<times> 's world" where
  "configMapsCreate clientset namespace cm w =
     (case ConfigMaps_Create clientset namespace cm (store w) of
        (r, s) \<Rightarrow> (r, \<lparr>store = s, calls = calls w @ [CallConfigMapsCreate namespace cm r]\<rparr>))"

definition sleep :: "nat \<Rightarrow> 's world \<Rightarrow> 's world" where
  "sleep seconds w = w\<lparr>calls := calls w @ [CallSleep seconds]\<rparr>"

fun isDelete :: "call \<Rightarrow> bool" where
  "isDelete (CallJobsDelete _ _ _ _) = True"
| "isDelete _ = False"


section \<open>pkg/k8sutil/job.go\<close>

subsection \<open>DeleteBatchJob\<close>

text \<open>
  The options of the delete request: foreground propagation, grace period zero.
\<close>

definition deleteOptions :: DeleteOptions where
  "deleteOptions = \<lparr>GracePeriodSeconds = Some 0, PropagationPolicy = Some ''Foreground''\<rparr>"

text \<open>
  The loop \<^verbatim>\<open>for i := 0; i < retries; i++\<close>: one lookup per round; a "not found" answer
  returns at once, any other answer (the object, or another error) is followed by a sleep
  of \<open>sleepInterval\<close> seconds. When the rounds are used up the function still returns nil.
\<close>

function DeleteBatchJob_loop ::
  "'s Clientset \<Rightarrow> string \<Rightarrow> string \<Rightarrow> nat \<Rightarrow> nat \<Rightarrow> nat \<Rightarrow> 's world \<Rightarrow> error option \<times> 's world" where
  "DeleteBatchJob_loop clientset namespace name retries sleepInterval i w =
     (if i < retries then
        (case jobsGet clientset namespace name w of
           (Inl err, w1) \<Rightarrow>
             if IsNotFound err then (None, w1)
             else DeleteBatchJob_loop clientset namespace name retries sleepInterval (i + 1)
                    (sleep sleepInterval w1)
         | (Inr _, w1) \<Rightarrow>
             DeleteBatchJob_loop clientset namespace name retries sleepInterval (i + 1)
               (sleep sleepInterval w1))
      else (None, w))"
  by pat_completeness auto
termination
  by (relation "measure (\<lambda>(clientset, namespace, name, retries, sleepInterval, i, w). retries - i)") auto

declare DeleteBatchJob_loop.simps [simp del]

definition DeleteBatchJob ::
  "'s Clientset \<Rightarrow> string \<Rightarrow> string \<Rightarrow> bool \<Rightarrow> 's world \<Rightarrow> error option \<times> 's world" where
  "DeleteBatchJob clientset namespace name wait w =
     (case jobsDelete clientset namespace name deleteOptions w of
        (Some err, w1) \<Rightarrow>
          if IsNotFound err then (None, w1)
          else (Some (Errorf (''failed to remove previous provisioning job for node '' @ name @ ''. '') err), w1)
      | (None, w1) \<Rightarrow>
          if \<not> wait then (None, w1)
          else DeleteBatchJob_loop clientset namespace name 30 3 0 w1)"

subsection \<open>RunReplaceableJob\<close>

text \<open>
  The context argument of \<^verbatim>\<open>RunReplaceableJob\<close> and \<^verbatim>\<open>DeleteBatchJob\<close> is never read by
  either function and is left out. A lookup error other than "not found" is only logged, so
  both error cases of the lookup go on to the create.
\<close>

definition RunReplaceableJob ::
  "'s Clientset \<Rightarrow> Job \<Rightarrow> bool \<Rightarrow> 's world \<Rightarrow> error option \<times> 's world" where
  "RunReplaceableJob clientset job deleteIfFound w =
     (let namespace = Namespace (Job.ObjectMeta job); name = ObjectMeta.Name (Job.ObjectMeta job);
          create = (\<lambda>w'. case jobsCreate clientset namespace job w' of
                            (Inl err, w'') \<Rightarrow> (Some err, w'')
                          | (Inr _, w'') \<Rightarrow> (None, w''))
      in case jobsGet clientset namespace name w of
           (Inl err, w1) \<Rightarrow> create w1
         | (Inr existingJob, w1) \<Rightarrow>
             if 0 < sint (Active (Status existingJob)) \<and> \<not> deleteIfFound then (None, w1)
             else (case DeleteBatchJob clientset namespace
                         (ObjectMeta.Name (Job.ObjectMeta existingJob)) True w1 of
                     (Some err, w2) \<Rightarrow>
                       (Some (Errorf (''failed to remove job '' @ name @ ''. '') err), w2)
                   | (None, w2) \<Rightarrow> create w2))"

subsection \<open>CheckJobStatus\<close>




section \<open>Functions of Go's standard library that the planner calls\<close>

text \<open>
  Strings are byte sequences. \<^verbatim>\<open>strings.Split\<close> is only called with the one-byte separator
  \<^verbatim>\<open>"/"\<close>: the result has one more piece than the string has separators, so it is never
  empty.
\<close>

fun Split :: "string \<Rightarrow> char \<Rightarrow> string list" where
  "Split [] sep = [[]]"
| "Split (c # cs) sep =
     (if c = sep then [] # Split cs sep
      else (case Split cs sep of [] \<Rightarrow> [[c]] | p # ps \<Rightarrow> (c # p) # ps))"

text \<open>
  \<^verbatim>\<open>strings.TrimRight(s, cutset)\<close> removes the trailing bytes that are in the cutset (the
  cutsets used are the ASCII characters \<^verbatim>\<open>"/"\<close> and \<^verbatim>\<open>","\<close>).
\<close>

definition TrimRight :: "string \<Rightarrow> string \<Rightarrow> string" where
  "TrimRight s cutset = rev (dropWhile (\<lambda>c. c \<in> set cutset) (rev s))"

text \<open>
  \<^verbatim>\<open>strings.TrimSpace\<close> removes the leading and trailing white space, as Unicode defines it,
  of a UTF-8 string. \<open>spaceEncodings\<close> lists the UTF-8 encodings of the code points for which
  \<^verbatim>\<open>unicode.IsSpace\<close> holds: U+0009 to U+000D, U+0020, U+0085, U+00A0, U+1680, U+2000 to
  U+200A, U+2028, U+2029, U+202F, U+205F, U+3000.
\<close>

definition spaceEncodings :: "string list" where
  "spaceEncodings =
     [[CHR 0x09], [CHR 0x0A], [CHR 0x0B], [CHR 0x0C], [CHR 0x0D], [CHR 0x20],
      [CHR 0xC2, CHR 0x85], [CHR 0xC2, CHR 0xA0],
      [CHR 0xE1, CHR 0x9A, CHR 0x80],
      [CHR 0xE2, CHR 0x80, CHR 0x80], [CHR 0xE2, CHR 0x80, CHR 0x81],
      [CHR 0xE2, CHR 0x80, CHR 0x82], [CHR 0xE2, CHR 0x80, CHR 0x83],
      [CHR 0xE2, CHR 0x80, CHR 0x84], [CHR 0xE2, CHR 0x80, CHR 0x85],
      [CHR 0xE2, CHR 0x80, CHR 0x86], [CHR 0xE2, CHR 0x80, CHR 0x87],
      [CHR 0xE2, CHR 0x80, CHR 0x88], [CHR 0xE2, CHR 0x80, CHR 0x89],
      [CHR 0xE2, CHR 0x80, CHR 0x8A],
      [CHR 0xE2, CHR 0x80, CHR 0xA8], [CHR 0xE2, CHR 0x80, CHR 0xA9],
      [CHR 0xE2, CHR 0x80, CHR 0xAF], [CHR 0xE2, CHR 0x81, CHR 0x9F],
      [CHR 0xE3, CHR 0x80, CHR 0x80]]"

definition leadingSpace :: "string \<Rightarrow> nat" where
  "leadingSpace s = (case find (\<lambda>e. prefix e s) spaceEncodings of None \<Rightarrow> 0 | Some e \<Rightarrow> length e)"

definition trailingSpace :: "string \<Rightarrow> nat" where
  "trailingSpace s = (case find (\<lambda>e. suffix e s) spaceEncodings of None \<Rightarrow> 0 | Some e \<Rightarrow> length e)"

function trimLeftSpace :: "string \<Rightarrow> string" where
  "trimLeftSpace s = (if leadingSpace s = 0 then s else trimLeftSpace (drop (leadingSpace s) s))"
  by pat_completeness auto
termination
proof (relation "measure length")
  show "wf (measure length)" by simp
next
  fix s :: string
  assume "leadingSpace s \<noteq> 0"
  moreover have "leadingSpace [] = 0"
    by (auto simp: leadingSpace_def find_Some_iff split: option.splits)
  ultimately have "s \<noteq> []" by auto
  with \<open>leadingSpace s \<noteq> 0\<close> show "(drop (leadingSpace s) s, s) \<in> measure length" by simp
qed

function trimRightSpace :: "string \<Rightarrow> string" where
  "trimRightSpace s =
     (if trailingSpace s = 0 then s else trimRightSpace (take (length s - trailingSpace s) s))"
  by pat_completeness auto
termination
proof (relation "measure length")
  show "wf (measure length)" by simp
next
  fix s :: string
  assume "trailingSpace s \<noteq> 0"
  moreover have "trailingSpace [] = 0"
    by (auto simp: trailingSpace_def find_Some_iff split: option.splits)
  ultimately have "s \<noteq> []" by auto
  with \<open>trailingSpace s \<noteq> 0\<close> show "(take (length s - trailingSpace s) s, s) \<in> measure length"
    by simp
qed

declare trimLeftSpace.simps [simp del] trimRightSpace.simps [simp del]

definition TrimSpace :: "string \<Rightarrow> string" where
  "TrimSpace s = trimRightSpace (trimLeftSpace s)"

text \<open>\<^verbatim>\<open>strconv.Itoa\<close>: the decimal digits of a signed integer.\<close>

function digits :: "nat \<Rightarrow> string" where
  "digits n = (if n < 10 then [char_of (48 + n)] else digits (n div 10) @ [char_of (48 + n mod 10)])"
  by pat_completeness auto
termination
  by (relation "measure id") auto

declare digits.simps [simp del]

definition Itoa :: "go_int \<Rightarrow> string" where
  "Itoa i = (if sint i < 0 then CHR ''-'' # digits (nat (- sint i)) else digits (nat (sint i)))"

section \<open>api/v1: the cluster specification\<close>

text \<open>
  The types of package \<^verbatim>\<open>api/v1\<close> are not among the sources; the records have the fields
  that the program reads. The elements of \<^verbatim>\<open>SelectedNodes\<close> are never inspected (only the
  length of the list is), so an element is a token without content.
\<close>

datatype SelectedNodesList = SelectedNode

record DevicesSpec =
  Name :: string
  Percentage :: go_int

record StorageScopeSpec =
  UseSelectedNodes :: bool
  Nodes :: "string list"
  Port :: go_int
  Devices :: "DevicesSpec list"
  SelectedNodes :: "SelectedNodesList list"

record MdsSpec =
  DummyPort :: go_int

record SnapShotCloneSpec =
  Enable :: bool
  Port :: go_int
  DummyPort :: go_int

record CurveVersionSpec =
  Image :: string
  ImagePullPolicy :: string

record CurveClusterSpec =
  CurveVersion :: CurveVersionSpec
  Storage :: StorageScopeSpec
  Mds :: MdsSpec
  SnapShotClone :: SnapShotCloneSpec

record NamespacedName =
  Namespace :: string
  Name :: string

datatype ConditionType = ConditionTypeFormatedReady | ConditionTypeChunkServerReady

datatype ConditionStatus = ConditionTrue

datatype ConditionReason =
    ConditionFormatingChunkfilePoolReason
  | ConditionFormatChunkfilePoolReason
  | ConditionChunkServerClusterCreatedReason

section \<open>Package chunkserver: data and state\<close>

definition AppName :: string where "AppName = ''curve-chunkserver''"
definition ConfigMapNamePrefix :: string where "ConfigMapNamePrefix = ''curve-chunkserver-conf''"
definition Prefix' :: string where "Prefix' = ''/curvebs/chunkserver''"
definition ChunkserverContainerDataDir :: string where
  "ChunkserverContainerDataDir = ''/curvebs/chunkserver/data''"
definition ChunkserverContainerLogDir :: string where
  "ChunkserverContainerLogDir = ''/curvebs/chunkserver/logs''"
definition PrepareJobName :: string where "PrepareJobName = ''prepare-chunkfile''"
definition DEFAULT_CHUNKFILE_SIZE :: go_int where "DEFAULT_CHUNKFILE_SIZE = 16 * 1024 * 1024"
definition formatConfigMapName :: string where "formatConfigMapName = ''format-chunkfile-conf''"
definition formatScriptFileDataKey :: string where "formatScriptFileDataKey = ''format.sh''"
definition formatScriptMountPath :: string where
  "formatScriptMountPath = ''/curvebs/tools/sbin/format.sh''"

text \<open>
  \<^verbatim>\<open>OwnerInfo\<close> (package k8sutil, not among the sources) is represented by its method
  \<^verbatim>\<open>SetControllerReference\<close>, at the two types it is applied to; the method returns an error
  or the object with the owner reference set.
\<close>

record OwnerInfo =
  SetControllerReference_Job :: "Job \<Rightarrow> error + Job"
  SetControllerReference_ConfigMap :: "ConfigMap \<Rightarrow> error + ConfigMap"

record 's Context =
  Clientset :: "'s Clientset"

record 's Cluster =
  context' :: "'s Context"
  namespacedName :: NamespacedName
  spec :: CurveClusterSpec
  dataDirHostPath :: string
  logDirHostPath :: string
  confDirHostPath :: string
  ownerInfo :: OwnerInfo

record chunkserverDataPathMap =
  HostDevice :: string
  HostLogDir :: string
  ContainerDataDir :: string
  ContainerLogDir :: string

record chunkserverConfig =
  Prefix :: string
  Port :: go_int
  ClusterMdsAddr :: string
  ClusterMdsDummyPort :: string
  ClusterEtcdAddr :: string
  ClusterSnapshotcloneAddr :: string
  ClusterSnapshotcloneDummyPort :: string
  ResourceName :: string
  CurrentConfigMapName :: string
  DataPathMap :: chunkserverDataPathMap
  NodeName :: string
  NodeIP :: string
  DeviceName :: string
  HostSequence :: go_int
  ReplicasSequence :: go_int
  Replicas :: go_int

text \<open>
  \<^verbatim>\<open>Job2DeviceInfo.device\<close> is a pointer: the program stores \<^verbatim>\<open>&device\<close>, the address of the
  variable of the \<^verbatim>\<open>range\<close> loop over the devices. The variables of these loops live in
  \<open>deviceVars\<close>, and an address is an index into it. The pointer \<^verbatim>\<open>job\<close> refers to an object
  that is not written after the record is built, so the record holds the object. (The
  field names carry a prime because the plain names are used for variables.)
\<close>

record Job2DeviceInfo =
  job' :: Job
  device' :: nat
  nodeName' :: string

text \<open>
  The state of the program: the store with the log of calls, the two package-level
  variables, and the loop variables whose address was taken.
\<close>

record 's state =
  world :: "'s world"
  job2DeviceInfos :: "Job2DeviceInfo list"
  chunkserverConfigs :: "chunkserverConfig list"
  deviceVars :: "DevicesSpec list"

text \<open>
  A call returns a value, or panics, or never returns (\<open>Blocked\<close>: a receive on a channel on
  which nothing is ever sent).
\<close>

datatype 'a outcome = Return 'a | Panic | Blocked

text \<open>
  The constants and functions of this repository that the sources use but do not contain
  are parameters: the constants of packages \<^verbatim>\<open>config\<close> and \<^verbatim>\<open>script\<close> (\<open>ClusterEtcdAddrKey\<close> is
  \<^verbatim>\<open>config.ClusterEtcdAddr\<close>); the functions
  \<^verbatim>\<open>GetNodeHostNames\<close>, \<^verbatim>\<open>GetValidNodes\<close> and \<^verbatim>\<open>UpdateCondition\<close> of package k8sutil, which
  work on the store; and the methods \<^verbatim>\<open>createFormatVolumeAndMount\<close>, \<^verbatim>\<open>checkJobStatus\<close>,
  \<^verbatim>\<open>runCreatePoolJob\<close> and \<^verbatim>\<open>startChunkServers\<close> of \<^verbatim>\<open>Cluster\<close>, of which the last three may
  read and write the whole state. \<open>checkJobStatus\<close> stands for the goroutine that
  \<^verbatim>\<open>Start\<close> launches together with the receive on its channel: it yields the value received,
  or \<open>None\<close> when nothing is ever sent.
\<close>

record 's collaborators =
  EtcdOverrideConfigMapName :: string
  ClusterEtcdAddrKey :: string
  MdsOverrideConfigMapName :: string
  MdsOvverideConfigMapDataKey :: string
  FORMAT :: string
  GetNodeHostNames :: "'s \<Rightarrow> (error + (string \<rightharpoonup> string)) \<times> 's"
  GetValidNodes :: "string list \<Rightarrow> 's \<Rightarrow> Node list \<times> 's"
  UpdateCondition ::
    "NamespacedName \<Rightarrow> ConditionType \<Rightarrow> ConditionStatus \<Rightarrow> ConditionReason \<Rightarrow> string \<Rightarrow> 's \<Rightarrow> 's"
  createFormatVolumeAndMount :: "DevicesSpec \<Rightarrow> Volume list \<times> VolumeMount list"
  checkJobStatus :: "'s state \<Rightarrow> bool option \<times> 's state"
  runCreatePoolJob :: "(string \<times> string) list \<Rightarrow> string \<Rightarrow> 's state \<Rightarrow> error option \<times> 's state"
  startChunkServers :: "'s state \<Rightarrow> error option \<times> 's state"

section \<open>Package chunkserver: the planner\<close>

subsection \<open>getPodLabels, makeFormatContainer, makeJob\<close>

definition getPodLabels :: "'s Cluster \<Rightarrow> string \<Rightarrow> string \<Rightarrow> (string \<rightharpoonup> string)" where
  "getPodLabels c nodeName deviceName =
     (let s = Split deviceName CHR ''/'';
          deviceName = (if length s > 1 then s ! 1 else nodeName)
      in [''app'' \<mapsto> PrepareJobName,
          ''node'' \<mapsto> nodeName,
          ''device'' \<mapsto> deviceName,
          ''curve_cluster'' \<mapsto> NamespacedName.Namespace (namespacedName c)])"

text \<open>
  The four statements that derive the short name of a device from its path; they occur
  twice in the source, in \<^verbatim>\<open>startProvisioningOverNodes\<close> and in \<^verbatim>\<open>makeJob\<close>.
\<close>

definition shortDeviceName :: "string \<Rightarrow> string" where
  "shortDeviceName deviceName =
     (let name = TrimSpace deviceName;
          name = TrimRight name ''/'';
          nameArr = Split name CHR ''/''
      in nameArr ! (length nameArr - 1))"

definition makeFormatContainer :: "'s Cluster \<Rightarrow> DevicesSpec \<Rightarrow> VolumeMount list \<Rightarrow> Container" where
  "makeFormatContainer c device volumeMounts =
     (let argsPercent = Itoa (Percentage device);
          argsFileSize = Itoa DEFAULT_CHUNKFILE_SIZE;
          argsFilePoolDir = ChunkserverContainerDataDir @ ''/chunkfilepool'';
          argsFilePoolMetaPath = ChunkserverContainerDataDir @ ''/chunkfilepool.meta''
      in \<lparr>Container.Name = ''format'',
          Args = [DevicesSpec.Name device, ChunkserverContainerDataDir, argsPercent, argsFileSize,
                  argsFilePoolDir, argsFilePoolMetaPath],
          Command = [''/bin/bash'', formatScriptMountPath],
          Container.Image = CurveVersionSpec.Image (CurveVersion (spec c)),
          Container.ImagePullPolicy = CurveVersionSpec.ImagePullPolicy (CurveVersion (spec c)),
          VolumeMounts = volumeMounts,
          Container.SecurityContext =
            \<lparr>Privileged = Some True, SecurityContext.RunAsUser = Some 0,
             SecurityContext.RunAsNonRoot = Some False, ReadOnlyRootFilesystem = Some False\<rparr>\<rparr>)"

definition makeJob :: "'s collaborators \<Rightarrow> 's Cluster \<Rightarrow> string \<Rightarrow> DevicesSpec \<Rightarrow> error + Job" where
  "makeJob k c nodeName device =
     (case createFormatVolumeAndMount k device of
        (volumes, volumeMounts) \<Rightarrow>
          let name = shortDeviceName (DevicesSpec.Name device);
              jobName = PrepareJobName @ ''-'' @ nodeName @ ''-'' @ name;
              podName = PrepareJobName @ ''-'' @ nodeName;
              podSpec =
                \<lparr>PodTemplateSpec.ObjectMeta =
                   \<lparr>ObjectMeta.Name = podName, ObjectMeta.Namespace = [],
                    Labels = getPodLabels c nodeName (DevicesSpec.Name device)\<rparr>,
                 PodTemplateSpec.Spec =
                   \<lparr>Containers = [makeFormatContainer c device volumeMounts],
                    PodSpec.NodeName = nodeName,
                    RestartPolicy = ''OnFailure'',
                    HostNetwork = True,
                    DNSPolicy = ''ClusterFirstWithHostNet'',
                    Volumes = volumes,
                    PodSpec.SecurityContext =
                      \<lparr>PodSecurityContext.RunAsUser = Some 0,
                       PodSecurityContext.RunAsNonRoot = Some False\<rparr>\<rparr>\<rparr>;
              job =
                \<lparr>Job.ObjectMeta =
                   \<lparr>ObjectMeta.Name = jobName,
                    ObjectMeta.Namespace = NamespacedName.Namespace (namespacedName c),
                    Labels = getPodLabels c nodeName (DevicesSpec.Name device)\<rparr>,
                 Job.Spec = \<lparr>Template = podSpec\<rparr>,
                 Status = \<lparr>Active = 0, Succeeded = 0, Failed = 0\<rparr>\<rparr>
          in (case SetControllerReference_Job (ownerInfo c) job of
                Inl err \<Rightarrow> Inl (Wrapf err ''failed to set owner reference to job %q'' [jobName])
              | Inr job \<Rightarrow> Inr job))"

subsection \<open>runPrepareJob\<close>

text \<open>
  \<^verbatim>\<open>job, _ := c.makeJob(nodeName, device)\<close> drops the error of \<^verbatim>\<open>makeJob\<close>; when there is
  one the job is nil and the next statement, which reads \<^verbatim>\<open>job.Namespace\<close>, panics.
\<close>

definition runPrepareJob ::
  "'s collaborators \<Rightarrow> 's Cluster \<Rightarrow> string \<Rightarrow> DevicesSpec \<Rightarrow> 's world
     \<Rightarrow> (Job \<times> error option) outcome \<times> 's world" where
  "runPrepareJob k c nodeName device w =
     (case makeJob k c nodeName device of
        Inl _ \<Rightarrow> (Panic, w)
      | Inr job \<Rightarrow>
          let namespace = ObjectMeta.Namespace (Job.ObjectMeta job);
              create = (\<lambda>w'. case jobsCreate (Clientset (context' c)) namespace job w' of
                                (Inl err, w'') \<Rightarrow> (Return (job, Some err), w'')
                              | (Inr _, w'') \<Rightarrow> (Return (job, None), w''))
          in (case jobsGet (Clientset (context' c)) namespace
                      (ObjectMeta.Name (Job.ObjectMeta job)) w of
                (Inl err, w1) \<Rightarrow> create w1
              | (Inr existingJob, w1) \<Rightarrow>
                  if 0 < sint (Active (Status existingJob)) then (Return (existingJob, None), w1)
                  else create w1))"

subsection \<open>createFormatConfigMap\<close>

definition createFormatConfigMap :: "'s collaborators \<Rightarrow> 's Cluster \<Rightarrow> 's world \<Rightarrow> error option \<times> 's world" where
  "createFormatConfigMap k c w =
     (let formatConfigMapData = [formatScriptFileDataKey \<mapsto> FORMAT k];
          cm = \<lparr>ConfigMap.ObjectMeta =
                  \<lparr>ObjectMeta.Name = formatConfigMapName,
                   ObjectMeta.Namespace = NamespacedName.Namespace (namespacedName c),
                   Labels = Map.empty\<rparr>,
                Data = formatConfigMapData\<rparr>
      in case SetControllerReference_ConfigMap (ownerInfo c) cm of
           Inl err \<Rightarrow>
             (Some (Wrapf err ''failed to set owner reference to format configmap %q''
                      [formatConfigMapName]), w)
         | Inr cm \<Rightarrow>
             (case configMapsCreate (Clientset (context' c))
                     (NamespacedName.Namespace (namespacedName c)) cm w of
                (Inl err, w1) \<Rightarrow>
                  if \<not> IsAlreadyExists err
                  then (Some (Wrapf err ''failed to create override configmap %s''
                                [NamespacedName.Namespace (namespacedName c)]), w1)
                  else (None, w1)
              | (Inr _, w1) \<Rightarrow> (None, w1)))"

subsection \<open>startProvisioningOverNodes\<close>

text \<open>The strings that are computed once per run and copied into every config record.\<close>

record addrs =
  clusterMdsAddr :: string
  clusterMdsDummyPort :: string
  clusterEtcdAddr :: string
  clusterSnapCloneAddr :: string
  clusterSnapShotCloneDummyPort :: string

text \<open>
  The inner loop, \<^verbatim>\<open>for _, device := range c.spec.Storage.Devices\<close>. The loop has one
  variable \<^verbatim>\<open>device\<close>, at address \<open>var\<close>, which every round overwrites with the next
  element. This is the meaning of a \<^verbatim>\<open>range\<close> loop in Go before version 1.22, and the sources
  are older: they call the client-go API without context arguments, as it was before
  client-go 0.18. (From Go 1.22 on, each round has a variable of its own.) \<^verbatim>\<open>continue\<close> on a
  failed submission skips the two appends and the two increments at the end of the body.
\<close>

fun forDevices ::
  "'s collaborators \<Rightarrow> 's Cluster \<Rightarrow> addrs \<Rightarrow> Node \<Rightarrow> string \<Rightarrow> go_int \<Rightarrow> nat \<Rightarrow> DevicesSpec list
     \<Rightarrow> go_int \<Rightarrow> go_int \<Rightarrow> 's state \<Rightarrow> unit outcome \<times> 's state" where
  "forDevices k c a node nodeIP hostSequence var [] portBase replicasSequence st = (Return (), st)"
| "forDevices k c a node nodeIP hostSequence var (device # devices) portBase replicasSequence st =
     (let st = st\<lparr>deviceVars := (deviceVars st)[var := device]\<rparr>;
          name = shortDeviceName (DevicesSpec.Name device);
          resourceName = AppName @ ''-'' @ ObjectMeta.Name (Node.ObjectMeta node) @ ''-'' @ name;
          currentConfigMapName =
            ConfigMapNamePrefix @ ''-'' @ ObjectMeta.Name (Node.ObjectMeta node) @ ''-'' @ name
      in case runPrepareJob k c (ObjectMeta.Name (Node.ObjectMeta node)) device (world st) of
           (Panic, w) \<Rightarrow> (Panic, st\<lparr>world := w\<rparr>)
         | (Blocked, w) \<Rightarrow> (Blocked, st\<lparr>world := w\<rparr>)
         | (Return (job, Some err), w) \<Rightarrow>
             forDevices k c a node nodeIP hostSequence var devices portBase replicasSequence
               (st\<lparr>world := w\<rparr>)
         | (Return (job, None), w) \<Rightarrow>
             (let jobInfo = \<lparr>job' = job, device' = var,
                             nodeName' = ObjectMeta.Name (Node.ObjectMeta node)\<rparr>;
                  chunkserverConfig =
                    \<lparr>chunkserverConfig.Prefix = Prefix',
                     chunkserverConfig.Port = portBase,
                     ClusterMdsAddr = clusterMdsAddr a,
                     ClusterMdsDummyPort = clusterMdsDummyPort a,
                     ClusterEtcdAddr = clusterEtcdAddr a,
                     ClusterSnapshotcloneAddr = clusterSnapCloneAddr a,
                     ClusterSnapshotcloneDummyPort = clusterSnapShotCloneDummyPort a,
                     ResourceName = resourceName,
                     CurrentConfigMapName = currentConfigMapName,
                     DataPathMap =
                       \<lparr>HostDevice = DevicesSpec.Name device,
                        HostLogDir = logDirHostPath c @ ''/chunkserver-'' @
                          ObjectMeta.Name (Node.ObjectMeta node) @ ''-'' @ name,
                        ContainerDataDir = ChunkserverContainerDataDir,
                        ContainerLogDir = ChunkserverContainerLogDir\<rparr>,
                     chunkserverConfig.NodeName = ObjectMeta.Name (Node.ObjectMeta node),
                     NodeIP = nodeIP,
                     DeviceName = DevicesSpec.Name device,
                     HostSequence = hostSequence,
                     ReplicasSequence = replicasSequence,
                     Replicas = of_nat (length (Devices (Storage (spec c))))\<rparr>
              in forDevices k c a node nodeIP hostSequence var devices (portBase + 1)
                   (replicasSequence + 1)
                   (st\<lparr>world := w,
                       job2DeviceInfos := job2DeviceInfos st @ [jobInfo],
                       chunkserverConfigs := chunkserverConfigs st @ [chunkserverConfig]\<rparr>)))"

text \<open>
  The outer loop, \<^verbatim>\<open>for _, node := range validNodes\<close>. Each round runs a new inner loop
  statement, which declares its variable \<^verbatim>\<open>device\<close> anew: a new cell of \<open>deviceVars\<close>.
  The map \<^verbatim>\<open>nodeNameIP\<close> is an association list; a missing key reads as the empty string.
\<close>

fun forNodes ::
  "'s collaborators \<Rightarrow> 's Cluster \<Rightarrow> addrs \<Rightarrow> (string \<times> string) list \<Rightarrow> Node list \<Rightarrow> go_int
     \<Rightarrow> 's state \<Rightarrow> unit outcome \<times> 's state" where
  "forNodes k c a nodeNameIP [] hostSequence st = (Return (), st)"
| "forNodes k c a nodeNameIP (node # validNodes) hostSequence st =
     (let nodeIP = (case map_of nodeNameIP (ObjectMeta.Name (Node.ObjectMeta node)) of
                      None \<Rightarrow> [] | Some ip \<Rightarrow> ip);
          portBase = StorageScopeSpec.Port (Storage (spec c));
          replicasSequence = 0;
          var = length (deviceVars st);
          st = st\<lparr>deviceVars := deviceVars st @ [\<lparr>DevicesSpec.Name = [], Percentage = 0\<rparr>]\<rparr>
      in case forDevices k c a node nodeIP hostSequence var (Devices (Storage (spec c)))
                portBase replicasSequence st of
           (Return _, st) \<Rightarrow> forNodes k c a nodeNameIP validNodes (hostSequence + 1) st
         | (Panic, st) \<Rightarrow> (Panic, st)
         | (Blocked, st) \<Rightarrow> (Blocked, st))"

definition setStore :: "'s \<Rightarrow> 's state \<Rightarrow> 's state" where
  "setStore s st = st\<lparr>world := (world st)\<lparr>store := s\<rparr>\<rparr>"

text \<open>
  \<^verbatim>\<open>for _, ipAddr := range nodeNameIP\<close> visits the entries of the map in an order that the
  Go runtime chooses; the association list \<open>nodeNameIP\<close> lists the entries in the order in
  which this run visits them. \<^verbatim>\<open>fmt.Sprint\<close> puts no space between two operands of which
  one is a string, so it concatenates here.
\<close>

definition startProvisioningOverNodes ::
  "'s collaborators \<Rightarrow> 's Cluster \<Rightarrow> (string \<times> string) list \<Rightarrow> 's state
     \<Rightarrow> error option outcome \<times> 's state" where
  "startProvisioningOverNodes k c nodeNameIP st =
     (if \<not> UseSelectedNodes (Storage (spec c)) then
        (let st = st\<lparr>job2DeviceInfos := [], chunkserverConfigs := []\<rparr> in
         case GetNodeHostNames k (store (world st)) of
           (Inl err, s) \<Rightarrow> (Return (Some (Wrap err ''failed to get node hostnames'')), setStore s st)
         | (Inr hostnameMap, s) \<Rightarrow>
             (let storageNodes =
                    map (\<lambda>nodeName. case hostnameMap nodeName of None \<Rightarrow> [] | Some h \<Rightarrow> h)
                      (Nodes (Storage (spec c)))
              in case GetValidNodes k storageNodes s of
                   (validNodes, s) \<Rightarrow>
                     if length validNodes = 0 then (Return None, setStore s st)
                     else
                       (case createFormatConfigMap k c (world (setStore s st)) of
                          (Some err, w) \<Rightarrow>
                            (Return (Some (Wrap err ''failed to create format ConfigMap'')),
                             st\<lparr>world := w\<rparr>)
                        | (None, w) \<Rightarrow>
                            (case configMapsGet (Clientset (context' c))
                                    (NamespacedName.Namespace (namespacedName c))
                                    (EtcdOverrideConfigMapName k) w of
                               (Inl err, w) \<Rightarrow>
                                 (Return (Some (Wrap err
                                    ''failed to get etcd override endoints configmap'')),
                                  st\<lparr>world := w\<rparr>)
                             | (Inr etcdOverrideCM, w) \<Rightarrow>
                                 (case configMapsGet (Clientset (context' c))
                                         (NamespacedName.Namespace (namespacedName c))
                                         (MdsOverrideConfigMapName k) w of
                                    (Inl err, w) \<Rightarrow>
                                      (Return (Some (Wrap err
                                         ''failed to get mds override endoints configmap'')),
                                       st\<lparr>world := w\<rparr>)
                                  | (Inr mdsOverrideCM, w) \<Rightarrow>
                                      (let dummyPort = Itoa (MdsSpec.DummyPort (Mds (spec c)));
                                           snapDummyPort =
                                             Itoa (SnapShotCloneSpec.DummyPort (SnapShotClone (spec c)));
                                           a = \<lparr>clusterMdsAddr =
                                                  (case Data mdsOverrideCM (MdsOvverideConfigMapDataKey k) of
                                                     None \<Rightarrow> [] | Some v \<Rightarrow> v),
                                                clusterMdsDummyPort =
                                                  dummyPort @ '','' @ dummyPort @ '','' @ dummyPort,
                                                clusterEtcdAddr =
                                                  (case Data etcdOverrideCM (ClusterEtcdAddrKey k) of
                                                     None \<Rightarrow> [] | Some v \<Rightarrow> v),
                                                clusterSnapCloneAddr =
                                                  (if Enable (SnapShotClone (spec c))
                                                   then TrimRight
                                                          (foldl (\<lambda>addr (_, ipAddr).
                                                                    addr @ ipAddr @ '':'' @
                                                                    Itoa (SnapShotCloneSpec.Port
                                                                            (SnapShotClone (spec c))) @ '','')
                                                             [] nodeNameIP) '',''
                                                   else []),
                                                clusterSnapShotCloneDummyPort =
                                                  (if Enable (SnapShotClone (spec c))
                                                   then snapDummyPort @ '','' @ snapDummyPort @ '','' @
                                                        snapDummyPort
                                                   else [])\<rparr>
                                       in case forNodes k c a nodeNameIP validNodes 0 (st\<lparr>world := w\<rparr>) of
                                            (Return _, st) \<Rightarrow> (Return None, st)
                                          | (Panic, st) \<Rightarrow> (Panic, st)
                                          | (Blocked, st) \<Rightarrow> (Blocked, st)))))))
      else (Return None, st))"

section \<open>Package chunkserver: Start\<close>

text \<open>
  The ticker, the 24 hour context and the goroutine are inside the parameter
  \<open>checkJobStatus\<close>; \<^verbatim>\<open>flag := <-chn\<close> receives what it sends, if anything. The deferred
  calls only stop the ticker and release the context.
\<close>

definition Start ::
  "'s collaborators \<Rightarrow> 's Cluster \<Rightarrow> (string \<times> string) list \<Rightarrow> 's state
     \<Rightarrow> error option outcome \<times> 's state" where
  "Start k c nodeNameIP st =
     (if \<not> UseSelectedNodes (Storage (spec c)) \<and>
         (length (Nodes (Storage (spec c))) = 0 \<or> length (Devices (Storage (spec c))) = 0)
      then (Return (Some (ErrorsNew ''useSelectedNodes is set to false but no node specified'')), st)
      else if UseSelectedNodes (Storage (spec c)) \<and> length (SelectedNodes (Storage (spec c))) = 0
      then (Return (Some (ErrorsNew
              ''useSelectedNodes is set to false but selectedNodes not be specified'')), st)
      else
        (case startProvisioningOverNodes k c nodeNameIP st of
           (Panic, st) \<Rightarrow> (Panic, st)
         | (Blocked, st) \<Rightarrow> (Blocked, st)
         | (Return (Some err), st) \<Rightarrow>
             (Return (Some (Wrap err ''failed to provision chunkfilepool'')), st)
         | (Return None, st) \<Rightarrow>
             (let st = setStore (UpdateCondition k (namespacedName c) ConditionTypeFormatedReady
                          ConditionTrue ConditionFormatingChunkfilePoolReason
                          ''Formating chunkfilepool'' (store (world st))) st
              in case checkJobStatus k st of
                   (None, st) \<Rightarrow> (Blocked, st)
                 | (Some flag, st) \<Rightarrow>
                     if \<not> flag
                     then (Return (Some (ErrorsNew
                             ''Format job is not completed in 24 hours and exit with -1'')), st)
                     else
                       (let st = setStore (UpdateCondition k (namespacedName c)
                                    ConditionTypeFormatedReady ConditionTrue
                                    ConditionFormatChunkfilePoolReason
                                    ''Formating chunkfilepool successed'' (store (world st))) st
                        in case runCreatePoolJob k nodeNameIP ''physical_pool'' st of
                             (Some err, st) \<Rightarrow>
                               (Return (Some (Wrap err ''failed to create physical pool'')), st)
                           | (None, st) \<Rightarrow>
                               (case startChunkServers k st of
                                  (Some err, st) \<Rightarrow>
                                    (Return (Some (Wrap err ''failed to start chunkserver'')), st)
                                | (None, st) \<Rightarrow>
                                    (case runCreatePoolJob k nodeNameIP ''logical_pool'' st of
                                       (Some err, st) \<Rightarrow>
                                         (Return (Some (Wrap err
                                            ''failed to create physical pool'')), st)
                                     | (None, st) \<Rightarrow>
                                         (Return None,
                                          setStore (UpdateCondition k (namespacedName c)
                                             ConditionTypeChunkServerReady ConditionTrue
                                             ConditionChunkServerClusterCreatedReason
                                             ''Chunkserver cluster has been created''
                                             (store (world st))) st)))))))"

section \<open>Vocabulary of the statements, and a scripted store\<close>

text \<open>What an answer to a lookup or to a delete request says.\<close>

definition deleteAccepted :: "error option \<Rightarrow> bool" where
  "deleteAccepted dr = (case dr of Some err \<Rightarrow> IsNotFound err | None \<Rightarrow> True)"

definition reportsAbsent :: "error + Job \<Rightarrow> bool" where
  "reportsAbsent r = (case r of Inl err \<Rightarrow> IsNotFound err | Inr _ \<Rightarrow> False)"



text \<open>
  A store for running the program on concrete inputs: lookups of jobs are answered from a
  script, one answer per lookup and "not found" once the script is used up; a create is
  answered by \<open>createAnswer\<close>, every delete by \<open>deleteAnswer\<close>, a lookup of a config map by
  \<open>configMaps\<close>; creating a config map succeeds.
\<close>

definition scriptClientset ::
  "(Job \<Rightarrow> error + Job) \<Rightarrow> error option \<Rightarrow> (string \<Rightarrow> error + ConfigMap)
     \<Rightarrow> ((error + Job) list) Clientset" where
  "scriptClientset createAnswer deleteAnswer configMaps =
     \<lparr>Jobs_Get = (\<lambda>namespace name s. case s of [] \<Rightarrow> (Inl NotFound, []) | r # rs \<Rightarrow> (r, rs)),
      Jobs_Create = (\<lambda>namespace job s. (createAnswer job, s)),
      Jobs_Delete = (\<lambda>namespace name options s. (deleteAnswer, s)),
      ConfigMaps_Get = (\<lambda>namespace name s. (configMaps name, s)),
      ConfigMaps_Create = (\<lambda>namespace cm s. (Inr cm, s))\<rparr>"

definition testJob :: "string \<Rightarrow> string \<Rightarrow> int32 \<Rightarrow> int32 \<Rightarrow> Job" where
  "testJob namespace name active succeeded =
     \<lparr>Job.ObjectMeta = \<lparr>ObjectMeta.Name = name, ObjectMeta.Namespace = namespace, Labels = Map.empty\<rparr>,
      Spec = \<lparr>Template =
        \<lparr>PodTemplateSpec.ObjectMeta = \<lparr>ObjectMeta.Name = [], ObjectMeta.Namespace = [], Labels = Map.empty\<rparr>,
         Spec = \<lparr>Containers = [], NodeName = [], RestartPolicy = [], HostNetwork = False,
                 DNSPolicy = [], Volumes = [],
                 SecurityContext = \<lparr>PodSecurityContext.RunAsUser = None, RunAsNonRoot = None\<rparr>\<rparr>\<rparr>\<rparr>,
      Status = \<lparr>Active = active, Succeeded = succeeded, Failed = 0\<rparr>\<rparr>"

text \<open>
  Requests in the log: a lookup of a job, and a create of a job that the store refused.
\<close>

fun isJobsGet :: "call \<Rightarrow> bool" where
  "isJobsGet (CallJobsGet _ _ _) = True"
| "isJobsGet _ = False"

fun isFailedCreate :: "call \<Rightarrow> bool" where
  "isFailedCreate (CallJobsCreate _ _ (Inl _)) = True"
| "isFailedCreate _ = False"

text \<open>
  The valid nodes of a run started in state \<open>st\<close>: what the first two steps of
  \<open>startProvisioningOverNodes\<close> compute (none when the host names cannot be read). The calls
  a run adds to the log. And what the config records of one host look like: at most one
  per device, in the order of the devices, each with the host's name, address and sequence
  number, numbered 0, 1, 2, ... by \<open>ReplicasSequence\<close>, and with the ports \<open>portBase\<close>,
  \<open>portBase + 1\<close>, ...
\<close>

definition validNodesOf :: "'s collaborators \<Rightarrow> 's Cluster \<Rightarrow> 's state \<Rightarrow> Node list" where
  "validNodesOf k c st =
     (case GetNodeHostNames k (store (world st)) of
        (Inl err, s) \<Rightarrow> []
      | (Inr hostnameMap, s) \<Rightarrow>
          fst (GetValidNodes k
                 (map (\<lambda>nodeName. case hostnameMap nodeName of None \<Rightarrow> [] | Some h \<Rightarrow> h)
                    (Nodes (Storage (spec c)))) s))"

definition newCalls :: "'s state \<Rightarrow> 's state \<Rightarrow> call list" where
  "newCalls st st' = drop (length (calls (world st))) (calls (world st'))"

definition hostBlock ::
  "Node \<Rightarrow> (string \<times> string) list \<Rightarrow> go_int \<Rightarrow> go_int \<Rightarrow> DevicesSpec list \<Rightarrow> chunkserverConfig list \<Rightarrow> bool" where
  "hostBlock node nodeNameIP hostSequence portBase devices block \<longleftrightarrow>
     length block \<le> length devices \<and>
     subseq (map DeviceName block) (map DevicesSpec.Name devices) \<and>
     (\<forall>i<length block.
        chunkserverConfig.NodeName (block ! i) = ObjectMeta.Name (Node.ObjectMeta node) \<and>
        NodeIP (block ! i) =
          (case map_of nodeNameIP (ObjectMeta.Name (Node.ObjectMeta node)) of
             None \<Rightarrow> [] | Some ip \<Rightarrow> ip) \<and>
        HostSequence (block ! i) = hostSequence \<and>
        ReplicasSequence (block ! i) = of_nat i \<and>
        chunkserverConfig.Port (block ! i) = portBase + of_nat i)"

subsection \<open>Inputs for running the planner\<close>

text \<open>
  A cluster on the scripted store whose owner references never fail, collaborators for
  which every node is its own host name and is valid, two devices, and a store that
  refuses the create of the job with a given name. \<open>madeJob\<close> is the job that \<open>makeJob\<close>
  builds when it succeeds.
\<close>

definition emptyConfigMap :: "string \<Rightarrow> ConfigMap" where
  "emptyConfigMap name =
     \<lparr>ConfigMap.ObjectMeta = \<lparr>ObjectMeta.Name = name, ObjectMeta.Namespace = ''curve'', Labels = Map.empty\<rparr>,
      Data = Map.empty\<rparr>"

definition testNode :: "string \<Rightarrow> Node" where
  "testNode name =
     \<lparr>Node.ObjectMeta = \<lparr>ObjectMeta.Name = name, ObjectMeta.Namespace = [], Labels = Map.empty\<rparr>\<rparr>"

definition testCollaborators :: "((error + Job) list) collaborators" where
  "testCollaborators =
     \<lparr>EtcdOverrideConfigMapName = ''etcd-endpoints-override'',
      ClusterEtcdAddrKey = ''clusterEtcdAddr'',
      MdsOverrideConfigMapName = ''mds-endpoints-override'',
      MdsOvverideConfigMapDataKey = ''mdsEndpoints'',
      FORMAT = ''#!/bin/bash'',
      GetNodeHostNames = (\<lambda>s. (Inr (\<lambda>nodeName. Some nodeName), s)),
      GetValidNodes = (\<lambda>storageNodes s. (map testNode storageNodes, s)),
      UpdateCondition = (\<lambda>n t s r m s'. s'),
      createFormatVolumeAndMount = (\<lambda>device. ([], [])),
      checkJobStatus = (\<lambda>st. (Some True, st)),
      runCreatePoolJob = (\<lambda>nodeNameIP poolType st. (None, st)),
      startChunkServers = (\<lambda>st. (None, st))\<rparr>"

definition testCluster ::
  "bool \<Rightarrow> SelectedNodesList list \<Rightarrow> string list \<Rightarrow> DevicesSpec list \<Rightarrow> (Job \<Rightarrow> error + Job)
     \<Rightarrow> ((error + Job) list) Cluster" where
  "testCluster useSelectedNodes selectedNodes nodes devices createAnswer =
     \<lparr>context' = \<lparr>Clientset = scriptClientset createAnswer None (\<lambda>name. Inr (emptyConfigMap name))\<rparr>,
      namespacedName = \<lparr>NamespacedName.Namespace = ''curve'', NamespacedName.Name = ''cluster''\<rparr>,
      spec =
        \<lparr>CurveVersion = \<lparr>CurveVersionSpec.Image = ''curve:latest'',
                          CurveVersionSpec.ImagePullPolicy = ''IfNotPresent''\<rparr>,
         Storage = \<lparr>UseSelectedNodes = useSelectedNodes, Nodes = nodes,
                     StorageScopeSpec.Port = 8200, Devices = devices,
                     SelectedNodes = selectedNodes\<rparr>,
         Mds = \<lparr>MdsSpec.DummyPort = 6700\<rparr>,
         SnapShotClone = \<lparr>Enable = False, SnapShotCloneSpec.Port = 5555,
                           SnapShotCloneSpec.DummyPort = 8800\<rparr>\<rparr>,
      dataDirHostPath = ''/curvebs/data'',
      logDirHostPath = ''/curvebs/log'',
      confDirHostPath = ''/curvebs/conf'',
      ownerInfo = \<lparr>SetControllerReference_Job = Inr, SetControllerReference_ConfigMap = Inr\<rparr>\<rparr>"

definition initialState :: "'s \<Rightarrow> 's state" where
  "initialState s =
     \<lparr>world = \<lparr>store = s, calls = []\<rparr>, job2DeviceInfos = [], chunkserverConfigs = [],
      deviceVars = []\<rparr>"

definition sda :: DevicesSpec where "sda = \<lparr>DevicesSpec.Name = ''/dev/sda'', Percentage = 80\<rparr>"
definition sdb :: DevicesSpec where "sdb = \<lparr>DevicesSpec.Name = ''/dev/sdb'', Percentage = 80\<rparr>"

definition madeJob :: "'s collaborators \<Rightarrow> 's Cluster \<Rightarrow> string \<Rightarrow> DevicesSpec \<Rightarrow> Job" where
  "madeJob k c nodeName device =
     (case makeJob k c nodeName device of Inr job \<Rightarrow> job | Inl _ \<Rightarrow> testJob [] [] 0 0)"

definition rejecting :: "string \<Rightarrow> Job \<Rightarrow> error + Job" where
  "rejecting name job =
     (if ObjectMeta.Name (Job.ObjectMeta job) = name then Inl (OtherStatus ''rejected'') else Inr job)"

section \<open>Properties of pkg/k8sutil/job.go\<close>

lemma testJob_sel [simp]:
  "ObjectMeta.Name (Job.ObjectMeta (testJob ns n a s)) = n"
  "ObjectMeta.Namespace (Job.ObjectMeta (testJob ns n a s)) = ns"
  "Active (Status (testJob ns n a s)) = a"
  "Succeeded (Status (testJob ns n a s)) = s"
  by (simp_all add: testJob_def)

lemma scriptClientset_sel [simp]:
  "Jobs_Get (scriptClientset c d m) ns n [] = (Inl NotFound, [])"
  "Jobs_Get (scriptClientset c d m) ns n (r # rs) = (r, rs)"
  "Jobs_Create (scriptClientset c d m) ns j s = (c j, s)"
  "Jobs_Delete (scriptClientset c d m) ns n opts s = (d, s)"
  "ConfigMaps_Get (scriptClientset c d m) ns n s = (m n, s)"
  "ConfigMaps_Create (scriptClientset c d m) ns cm s = (Inr cm, s)"
  by (simp_all add: scriptClientset_def)

lemma deleteAccepted_simps [simp]:
  "deleteAccepted None" "deleteAccepted (Some e) = IsNotFound e"
  by (simp_all add: deleteAccepted_def)

lemma IsNotFound_iff: "IsNotFound e \<longleftrightarrow> e = NotFound"
  by (cases e) auto

lemma jobsGet_calls:
  "jobsGet cs ns n w = (r, w1) \<Longrightarrow> calls w1 = calls w @ [CallJobsGet ns n r]"
  by (auto simp: jobsGet_def split: prod.splits)

lemma jobsGet_store:
  "jobsGet cs ns n w = (r, w1) \<Longrightarrow> (r, store w1) = Jobs_Get cs ns n (store w)"
  by (auto simp: jobsGet_def split: prod.splits)

lemma sleep_calls: "calls (sleep k w) = calls w @ [CallSleep k]"
  by (simp add: sleep_def)

lemma DeleteBatchJob_loop_shape:
  "\<exists>rs tail.
     calls (snd (DeleteBatchJob_loop cs ns n retries iv i w)) =
       calls w @ concat (map (\<lambda>r. [CallJobsGet ns n r, CallSleep iv]) rs) @ tail \<and>
     (\<forall>r\<in>set rs. \<not> reportsAbsent r) \<and>
     (tail = [CallJobsGet ns n (Inl NotFound)] \<and> length rs < retries - i \<or>
      tail = [] \<and> length rs = retries - i) \<and>
     fst (DeleteBatchJob_loop cs ns n retries iv i w) = None"
proof (induction cs ns n retries iv i w rule: DeleteBatchJob_loop.induct)
  case (1 cs ns n retries iv i w)
  show ?case
  proof (cases "i < retries")
    case False
    then show ?thesis
      by (subst (1 2) DeleteBatchJob_loop.simps) simp
  next
    case True
    obtain r w1 where g: "jobsGet cs ns n w = (r, w1)" by (cases "jobsGet cs ns n w")
    note c1 = jobsGet_calls [OF g]
    show ?thesis
    proof (cases "reportsAbsent r")
      case True
      then have r: "r = Inl NotFound"
        by (auto simp: reportsAbsent_def IsNotFound_iff split: sum.splits)
      have "DeleteBatchJob_loop cs ns n retries iv i w = (None, w1)"
        using \<open>i < retries\<close> g r by (subst DeleteBatchJob_loop.simps) simp
      then show ?thesis
        using c1 r \<open>i < retries\<close>
        by (intro exI [of _ "[]"] exI [of _ "[CallJobsGet ns n (Inl NotFound)]"]) simp
    next
      case False
      have step: "DeleteBatchJob_loop cs ns n retries iv i w =
                  DeleteBatchJob_loop cs ns n retries iv (i + 1) (sleep iv w1)"
        using \<open>i < retries\<close> g False
        by (subst DeleteBatchJob_loop.simps) (auto simp: reportsAbsent_def split: sum.splits)
      have "\<exists>rs tail.
          calls (snd (DeleteBatchJob_loop cs ns n retries iv (i + 1) (sleep iv w1))) =
            calls (sleep iv w1) @ concat (map (\<lambda>r. [CallJobsGet ns n r, CallSleep iv]) rs) @ tail \<and>
          (\<forall>r\<in>set rs. \<not> reportsAbsent r) \<and>
          (tail = [CallJobsGet ns n (Inl NotFound)] \<and> length rs < retries - (i + 1) \<or>
           tail = [] \<and> length rs = retries - (i + 1)) \<and>
          fst (DeleteBatchJob_loop cs ns n retries iv (i + 1) (sleep iv w1)) = None"
      proof (cases r)
        case (Inl err)
        with False have "\<not> IsNotFound err" by (simp add: reportsAbsent_def)
        from "1.IH"(1) [OF True g [symmetric] Inl this] show ?thesis by simp
      next
        case (Inr j)
        from "1.IH"(2) [OF True g [symmetric] Inr] show ?thesis by simp
      qed
      then obtain rs tail where
        a: "calls (snd (DeleteBatchJob_loop cs ns n retries iv (i + 1) (sleep iv w1))) =
            calls (sleep iv w1) @ concat (map (\<lambda>r. [CallJobsGet ns n r, CallSleep iv]) rs) @ tail"
        and b: "\<forall>r\<in>set rs. \<not> reportsAbsent r"
        and c: "tail = [CallJobsGet ns n (Inl NotFound)] \<and> length rs < retries - (i + 1) \<or>
           tail = [] \<and> length rs = retries - (i + 1)"
        and d: "fst (DeleteBatchJob_loop cs ns n retries iv (i + 1) (sleep iv w1)) = None"
        by blast
      show ?thesis
        unfolding step
        using a b c d False c1 True
        by (intro exI [of _ "r # rs"] exI [of _ tail]) (auto simp: sleep_calls)
    qed
  qed
qed


lemma jobsDelete_store:
  "jobsDelete cs ns n opts w = (r, w1) \<Longrightarrow> (r, store w1) = Jobs_Delete cs ns n opts (store w)"
  by (auto simp: jobsDelete_def split: prod.splits)







text \<open>
  Claim C4. \<open>DeleteBatchJob\<close>: when the delete request is answered "not found" the result
  is nil, with no polling. When the delete is accepted and \<open>wait\<close> is true, the function
  looks the job up at most 30 times; every lookup that does not answer "not found" is
  followed by a sleep of 3 seconds; the first "not found" ends the function at once; and
  when none of the 30 lookups answers "not found" the function ends after the 30th sleep.
  In every one of these cases it returns nil.
\<close>

theorem DeleteBatchJob_bounded:
  "(case jobsDelete clientset namespace name deleteOptions w of
      (Some err, w1) \<Rightarrow>
        IsNotFound err \<longrightarrow> DeleteBatchJob clientset namespace name wait w = (None, w1)
    | (None, w1) \<Rightarrow>
        fst (DeleteBatchJob clientset namespace name True w) = None \<and>
        (\<exists>rs tail.
           calls (snd (DeleteBatchJob clientset namespace name True w)) =
             calls w1 @ concat (map (\<lambda>r. [CallJobsGet namespace name r, CallSleep 3]) rs) @ tail \<and>
           (\<forall>r\<in>set rs. \<not> reportsAbsent r) \<and>
           (tail = [CallJobsGet namespace name (Inl NotFound)] \<and> length rs < 30 \<or>
            tail = [] \<and> length rs = 30)))"
proof (cases "jobsDelete clientset namespace name deleteOptions w")
  case (Pair dr w1)
  show ?thesis
  proof (cases dr)
    case None
    with Pair have "DeleteBatchJob clientset namespace name True w =
                    DeleteBatchJob_loop clientset namespace name 30 3 0 w1"
      by (simp add: DeleteBatchJob_def)
    then show ?thesis
      using Pair None DeleteBatchJob_loop_shape [of clientset namespace name 30 3 0 w1]
      by simp blast
  next
    case (Some err)
    with Pair show ?thesis by (simp add: DeleteBatchJob_def)
  qed
qed

theorem DeleteBatchJob_bounded_witness:
  "IsNotFound NotFound \<and>
   DeleteBatchJob (scriptClientset Inr (Some NotFound) (\<lambda>n. Inl NotFound)) ''ns'' ''job'' True
     \<lparr>store = [], calls = []\<rparr> =
     (None, \<lparr>store = [], calls = [CallJobsDelete ''ns'' ''job'' deleteOptions (Some NotFound)]\<rparr>) \<and>
   fst (DeleteBatchJob (scriptClientset Inr None (\<lambda>n. Inl NotFound)) ''ns'' ''job'' True
     \<lparr>store = replicate 40 (Inr (testJob ''ns'' ''job'' 0 1)), calls = []\<rparr>) = None \<and>
   length (filter isJobsGet (calls (snd (DeleteBatchJob (scriptClientset Inr None (\<lambda>n. Inl NotFound))
     ''ns'' ''job'' True
     \<lparr>store = replicate 40 (Inr (testJob ''ns'' ''job'' 0 1)), calls = []\<rparr>)))) = 30"
proof -
  have h: "IsNotFound NotFound" by simp
  have polls: "length (filter isJobsGet (calls (snd (DeleteBatchJob
     (scriptClientset Inr None (\<lambda>n. Inl NotFound)) ''ns'' ''job'' True
     \<lparr>store = replicate 40 (Inr (testJob ''ns'' ''job'' 0 1)), calls = []\<rparr>)))) = 30"
    by (simp add: DeleteBatchJob_def DeleteBatchJob_loop.simps jobsGet_def jobsDelete_def sleep_def
        numeral_eq_Suc)
  from DeleteBatchJob_bounded [of "scriptClientset Inr (Some NotFound) (\<lambda>n. Inl NotFound)"
      "''ns''" "''job''" "\<lparr>store = [], calls = []\<rparr>" True]
    DeleteBatchJob_bounded [of "scriptClientset Inr None (\<lambda>n. Inl NotFound)"
      "''ns''" "''job''" "\<lparr>store = replicate 40 (Inr (testJob ''ns'' ''job'' 0 1)), calls = []\<rparr>" True]
    polls
  show ?thesis by (simp add: jobsDelete_def)
qed

text \<open>
  Claim C2. When the lookup of the job's name succeeds, the job found has an active
  instance (\<open>Status.Active > 0\<close>) and \<open>deleteIfFound\<close> is false, \<open>RunReplaceableJob\<close>
  returns nil, and the lookup is the only request it makes: no delete, no create; the store
  is in the state in which the lookup left it.
\<close>

theorem RunReplaceableJob_active_noop:
  assumes "jobsGet clientset (ObjectMeta.Namespace (Job.ObjectMeta job)) (ObjectMeta.Name (Job.ObjectMeta job)) w
             = (Inr existingJob, w1)"
    and "0 < sint (Active (Status existingJob))"
    and "\<not> deleteIfFound"
  shows "RunReplaceableJob clientset job deleteIfFound w = (None, w1) \<and>
         calls w1 = calls w @ [CallJobsGet (ObjectMeta.Namespace (Job.ObjectMeta job))
                                 (ObjectMeta.Name (Job.ObjectMeta job)) (Inr existingJob)] \<and>
         store w1 = snd (Jobs_Get clientset (ObjectMeta.Namespace (Job.ObjectMeta job))
                           (ObjectMeta.Name (Job.ObjectMeta job)) (store w))"
proof -
  have "RunReplaceableJob clientset job deleteIfFound w = (None, w1)"
    using assms by (simp add: RunReplaceableJob_def Let_def)
  moreover note jobsGet_calls [OF assms(1)]
  moreover have "store w1 = snd (Jobs_Get clientset (ObjectMeta.Namespace (Job.ObjectMeta job))
                           (ObjectMeta.Name (Job.ObjectMeta job)) (store w))"
    using jobsGet_store [OF assms(1)] by (metis snd_conv)
  ultimately show ?thesis by simp
qed





theorem RunReplaceableJob_active_noop_witness:
  "jobsGet (scriptClientset Inr None (\<lambda>n. Inl NotFound)) ''ns'' ''job''
     \<lparr>store = [Inr (testJob ''ns'' ''job'' 1 0)], calls = []\<rparr> =
     (Inr (testJob ''ns'' ''job'' 1 0),
      \<lparr>store = [], calls = [CallJobsGet ''ns'' ''job'' (Inr (testJob ''ns'' ''job'' 1 0))]\<rparr>) \<and>
   0 < sint (Active (Status (testJob ''ns'' ''job'' 1 0))) \<and>
   RunReplaceableJob (scriptClientset Inr None (\<lambda>n. Inl NotFound)) (testJob ''ns'' ''job'' 0 0) False
     \<lparr>store = [Inr (testJob ''ns'' ''job'' 1 0)], calls = []\<rparr> =
     (None, \<lparr>store = [], calls = [CallJobsGet ''ns'' ''job'' (Inr (testJob ''ns'' ''job'' 1 0))]\<rparr>)"
proof -
  let ?cs = "scriptClientset Inr None (\<lambda>n. Inl NotFound)"
  let ?w = "\<lparr>store = [Inr (testJob ''ns'' ''job'' 1 0)], calls = []\<rparr>"
  let ?w1 = "\<lparr>store = [], calls = [CallJobsGet ''ns'' ''job'' (Inr (testJob ''ns'' ''job'' 1 0))]\<rparr>"
  have h1: "jobsGet ?cs (ObjectMeta.Namespace (Job.ObjectMeta (testJob ''ns'' ''job'' 0 0)))
              (ObjectMeta.Name (Job.ObjectMeta (testJob ''ns'' ''job'' 0 0))) ?w =
            (Inr (testJob ''ns'' ''job'' 1 0), ?w1)"
    by (simp add: jobsGet_def)
  have h2: "0 < sint (Active (Status (testJob ''ns'' ''job'' 1 0)))" by simp
  have h3: "\<not> False" by simp
  from RunReplaceableJob_active_noop [OF h1 h2 h3] h1 h2 show ?thesis by simp
qed




section \<open>Properties of the planner and of Start\<close>

text \<open>
  What one submission adds to the log: nothing when \<open>makeJob\<close> fails (the panic), otherwise
  one lookup and at most one create, never a delete.
\<close>

lemma runPrepareJob_spec:
  assumes "runPrepareJob k c n d w = (out, w')"
  shows "\<exists>new. calls w' = calls w @ new \<and> filter isDelete new = [] \<and> out \<noteq> Blocked \<and>
           (out = Panic \<longrightarrow> new = []) \<and>
           (\<forall>job e. out = Return (job, e) \<longrightarrow>
              length (filter isJobsGet new) = 1 \<and>
              length (filter isFailedCreate new) = (if e = None then 0 else 1))"
  using assms
  by (auto simp: runPrepareJob_def Let_def jobsGet_def jobsCreate_def
      split: sum.splits prod.splits if_splits)

text \<open>
  The inner loop only appends: one task record and one config record per successful
  submission, numbered from the values of \<open>replicasSequence\<close> and \<open>portBase\<close> at the entry
  of the loop.
\<close>

lemma forDevices_spec:
  assumes "forDevices k c a node nodeIP h var ds p r st = (out, st')"
  shows "\<exists>infos cfgs new.
     job2DeviceInfos st' = job2DeviceInfos st @ infos \<and>
     chunkserverConfigs st' = chunkserverConfigs st @ cfgs \<and>
     calls (world st') = calls (world st) @ new \<and>
     map nodeName' infos = map chunkserverConfig.NodeName cfgs \<and>
     set (map device' infos) \<subseteq> {var} \<and>
     length cfgs + length (filter isFailedCreate new) = length (filter isJobsGet new) \<and>
     length (filter isJobsGet new) \<le> length ds \<and>
     (out = Return () \<longrightarrow> length (filter isJobsGet new) = length ds) \<and>
     filter isDelete new = [] \<and>
     out \<noteq> Blocked \<and>
     subseq (map DeviceName cfgs) (map DevicesSpec.Name ds) \<and>
     length (deviceVars st') = length (deviceVars st) \<and>
     (\<forall>i<length cfgs.
        chunkserverConfig.NodeName (cfgs ! i) = ObjectMeta.Name (Node.ObjectMeta node) \<and>
        NodeIP (cfgs ! i) = nodeIP \<and>
        HostSequence (cfgs ! i) = h \<and>
        ReplicasSequence (cfgs ! i) = r + of_nat i \<and>
        chunkserverConfig.Port (cfgs ! i) = p + of_nat i)"
  using assms
proof (induction ds arbitrary: p r st)
  case Nil
  then show ?case by auto
next
  case (Cons d ds)
  let ?st0 = "st\<lparr>deviceVars := (deviceVars st)[var := d]\<rparr>"
  obtain o1 w1 where rp:
    "runPrepareJob k c (ObjectMeta.Name (Node.ObjectMeta node)) d (world ?st0) = (o1, w1)"
    by (cases "runPrepareJob k c (ObjectMeta.Name (Node.ObjectMeta node)) d (world ?st0)")
  from runPrepareJob_spec [OF rp] obtain new1 where
    n1: "calls w1 = calls (world st) @ new1" and nd1: "filter isDelete new1 = []"
    and nb: "o1 \<noteq> Blocked" and np: "o1 = Panic \<longrightarrow> new1 = []"
    and nr: "\<forall>job e. o1 = Return (job, e) \<longrightarrow>
              length (filter isJobsGet new1) = 1 \<and>
              length (filter isFailedCreate new1) = (if e = None then 0 else 1)"
    by auto
  show ?case
  proof (cases o1)
    case Blocked
    with nb show ?thesis by simp
  next
    case Panic
    with Cons.prems rp have "out = Panic" "st' = ?st0\<lparr>world := w1\<rparr>"
      by (simp_all add: Let_def)
    with n1 np Panic show ?thesis by simp
  next
    case (Return je)
    obtain job e where je: "je = (job, e)" by (cases je)
    show ?thesis
    proof (cases e)
      case (Some err)
      let ?st1 = "?st0\<lparr>world := w1\<rparr>"
      from Cons.prems rp Return je Some
      have rest: "forDevices k c a node nodeIP h var ds p r ?st1 = (out, st')"
        by (simp add: Let_def)
      from nr Return je Some have g1: "length (filter isJobsGet new1) = 1"
        and f1: "length (filter isFailedCreate new1) = 1" by auto
      from Cons.IH [OF rest] obtain infos cfgs new where
        ih: "job2DeviceInfos st' = job2DeviceInfos ?st1 @ infos"
          "chunkserverConfigs st' = chunkserverConfigs ?st1 @ cfgs"
          "calls (world st') = calls (world ?st1) @ new"
          "map nodeName' infos = map chunkserverConfig.NodeName cfgs"
          "set (map device' infos) \<subseteq> {var}"
          "length cfgs + length (filter isFailedCreate new) = length (filter isJobsGet new)"
          "length (filter isJobsGet new) \<le> length ds"
          "out = Return () \<longrightarrow> length (filter isJobsGet new) = length ds"
          "filter isDelete new = []"
          "out \<noteq> Blocked"
          "subseq (map DeviceName cfgs) (map DevicesSpec.Name ds)"
          "length (deviceVars st') = length (deviceVars ?st1)"
          "\<forall>i<length cfgs.
             chunkserverConfig.NodeName (cfgs ! i) = ObjectMeta.Name (Node.ObjectMeta node) \<and>
             NodeIP (cfgs ! i) = nodeIP \<and>
             HostSequence (cfgs ! i) = h \<and>
             ReplicasSequence (cfgs ! i) = r + of_nat i \<and>
             chunkserverConfig.Port (cfgs ! i) = p + of_nat i"
        by blast
      show ?thesis
        using ih n1 nd1 g1 f1
        by (intro exI [of _ infos] exI [of _ cfgs] exI [of _ "new1 @ new"]) auto
    next
      case None
      let ?name = "shortDeviceName (DevicesSpec.Name d)"
      let ?nn = "ObjectMeta.Name (Node.ObjectMeta node)"
      let ?jobInfo = "\<lparr>job' = job, device' = var, nodeName' = ?nn\<rparr>"
      let ?cfg = "\<lparr>chunkserverConfig.Prefix = Prefix',
                     chunkserverConfig.Port = p,
                     ClusterMdsAddr = clusterMdsAddr a,
                     ClusterMdsDummyPort = clusterMdsDummyPort a,
                     ClusterEtcdAddr = clusterEtcdAddr a,
                     ClusterSnapshotcloneAddr = clusterSnapCloneAddr a,
                     ClusterSnapshotcloneDummyPort = clusterSnapShotCloneDummyPort a,
                     ResourceName = AppName @ ''-'' @ ?nn @ ''-'' @ ?name,
                     CurrentConfigMapName = ConfigMapNamePrefix @ ''-'' @ ?nn @ ''-'' @ ?name,
                     DataPathMap =
                       \<lparr>HostDevice = DevicesSpec.Name d,
                        HostLogDir = logDirHostPath c @ ''/chunkserver-'' @ ?nn @ ''-'' @ ?name,
                        ContainerDataDir = ChunkserverContainerDataDir,
                        ContainerLogDir = ChunkserverContainerLogDir\<rparr>,
                     chunkserverConfig.NodeName = ?nn,
                     NodeIP = nodeIP,
                     DeviceName = DevicesSpec.Name d,
                     HostSequence = h,
                     ReplicasSequence = r,
                     Replicas = of_nat (length (Devices (Storage (spec c))))\<rparr>"
      let ?st1 = "?st0\<lparr>world := w1,
                        job2DeviceInfos := job2DeviceInfos ?st0 @ [?jobInfo],
                        chunkserverConfigs := chunkserverConfigs ?st0 @ [?cfg]\<rparr>"
      from Cons.prems rp Return je None
      have rest: "forDevices k c a node nodeIP h var ds (p + 1) (r + 1) ?st1 = (out, st')"
        by (simp add: Let_def)
      from nr Return je None have g1: "length (filter isJobsGet new1) = 1"
        and f1: "length (filter isFailedCreate new1) = 0" by auto
      from Cons.IH [OF rest] obtain infos cfgs new where
        ih: "job2DeviceInfos st' = job2DeviceInfos ?st1 @ infos"
          "chunkserverConfigs st' = chunkserverConfigs ?st1 @ cfgs"
          "calls (world st') = calls (world ?st1) @ new"
          "map nodeName' infos = map chunkserverConfig.NodeName cfgs"
          "set (map device' infos) \<subseteq> {var}"
          "length cfgs + length (filter isFailedCreate new) = length (filter isJobsGet new)"
          "length (filter isJobsGet new) \<le> length ds"
          "out = Return () \<longrightarrow> length (filter isJobsGet new) = length ds"
          "filter isDelete new = []"
          "out \<noteq> Blocked"
          "subseq (map DeviceName cfgs) (map DevicesSpec.Name ds)"
          "length (deviceVars st') = length (deviceVars ?st1)"
        and ihn: "\<forall>i<length cfgs.
             chunkserverConfig.NodeName (cfgs ! i) = ObjectMeta.Name (Node.ObjectMeta node) \<and>
             NodeIP (cfgs ! i) = nodeIP \<and>
             HostSequence (cfgs ! i) = h \<and>
             ReplicasSequence (cfgs ! i) = r + 1 + of_nat i \<and>
             chunkserverConfig.Port (cfgs ! i) = p + 1 + of_nat i"
        by blast
      have nth: "\<forall>i<length (?cfg # cfgs).
             chunkserverConfig.NodeName ((?cfg # cfgs) ! i) = ObjectMeta.Name (Node.ObjectMeta node) \<and>
             NodeIP ((?cfg # cfgs) ! i) = nodeIP \<and>
             HostSequence ((?cfg # cfgs) ! i) = h \<and>
             ReplicasSequence ((?cfg # cfgs) ! i) = r + of_nat i \<and>
             chunkserverConfig.Port ((?cfg # cfgs) ! i) = p + of_nat i"
      proof (intro allI impI)
        fix i assume "i < length (?cfg # cfgs)"
        then show "chunkserverConfig.NodeName ((?cfg # cfgs) ! i) = ObjectMeta.Name (Node.ObjectMeta node) \<and>
             NodeIP ((?cfg # cfgs) ! i) = nodeIP \<and>
             HostSequence ((?cfg # cfgs) ! i) = h \<and>
             ReplicasSequence ((?cfg # cfgs) ! i) = r + of_nat i \<and>
             chunkserverConfig.Port ((?cfg # cfgs) ! i) = p + of_nat i"
          using ihn by (cases i) (simp_all add: add.assoc)
      qed
      show ?thesis
        using ih n1 nd1 g1 f1 nth
        by (intro exI [of _ "?jobInfo # infos"] exI [of _ "?cfg # cfgs"] exI [of _ "new1 @ new"])
           (simp del: length_Cons)
    qed
  qed
qed

text \<open>The outer loop appends one block of config records per node.\<close>

lemma forNodes_spec:
  assumes "forNodes k c a ips nodes h st = (out, st')"
  shows "\<exists>blocks infos new.
     chunkserverConfigs st' = chunkserverConfigs st @ concat blocks \<and>
     job2DeviceInfos st' = job2DeviceInfos st @ infos \<and>
     calls (world st') = calls (world st) @ new \<and>
     map nodeName' infos = map chunkserverConfig.NodeName (concat blocks) \<and>
     length (concat blocks) + length (filter isFailedCreate new) = length (filter isJobsGet new) \<and>
     length (filter isJobsGet new) \<le> length nodes * length (Devices (Storage (spec c))) \<and>
     (out = Return () \<longrightarrow>
        length (filter isJobsGet new) = length nodes * length (Devices (Storage (spec c)))) \<and>
     filter isDelete new = [] \<and>
     out \<noteq> Blocked \<and>
     length blocks \<le> length nodes \<and>
     (out = Return () \<longrightarrow> length blocks = length nodes) \<and>
     (\<forall>j<length blocks.
        hostBlock (nodes ! j) ips (h + of_nat j) (StorageScopeSpec.Port (Storage (spec c)))
          (Devices (Storage (spec c))) (blocks ! j)) \<and>
     (filter isFailedCreate new = [] \<and> out = Return () \<longrightarrow>
        (\<forall>b\<in>set blocks. length b = length (Devices (Storage (spec c)))))"
  using assms
proof (induction nodes arbitrary: h st)
  case Nil
  then show ?case by (intro exI [of _ "[]"]) auto
next
  case (Cons node nodes)
  let ?devs = "Devices (Storage (spec c))"
  let ?port = "StorageScopeSpec.Port (Storage (spec c))"
  let ?nodeIP = "case map_of ips (ObjectMeta.Name (Node.ObjectMeta node)) of None \<Rightarrow> [] | Some ip \<Rightarrow> ip"
  let ?var = "length (deviceVars st)"
  let ?st0 = "st\<lparr>deviceVars := deviceVars st @ [\<lparr>DevicesSpec.Name = [], Percentage = 0\<rparr>]\<rparr>"
  obtain o1 st1 where fd: "forDevices k c a node ?nodeIP h ?var ?devs ?port 0 ?st0 = (o1, st1)"
    by (cases "forDevices k c a node ?nodeIP h ?var ?devs ?port 0 ?st0")
  from forDevices_spec [OF fd] obtain infos1 cfgs1 new1 where
    d: "job2DeviceInfos st1 = job2DeviceInfos st @ infos1"
       "chunkserverConfigs st1 = chunkserverConfigs st @ cfgs1"
       "calls (world st1) = calls (world st) @ new1"
       "map nodeName' infos1 = map chunkserverConfig.NodeName cfgs1"
       "length cfgs1 + length (filter isFailedCreate new1) = length (filter isJobsGet new1)"
       "length (filter isJobsGet new1) \<le> length ?devs"
       "o1 = Return () \<longrightarrow> length (filter isJobsGet new1) = length ?devs"
       "filter isDelete new1 = []"
       "o1 \<noteq> Blocked"
       "subseq (map DeviceName cfgs1) (map DevicesSpec.Name ?devs)"
    and dn: "\<forall>i<length cfgs1.
        chunkserverConfig.NodeName (cfgs1 ! i) = ObjectMeta.Name (Node.ObjectMeta node) \<and>
        NodeIP (cfgs1 ! i) = ?nodeIP \<and>
        HostSequence (cfgs1 ! i) = h \<and>
        ReplicasSequence (cfgs1 ! i) = 0 + of_nat i \<and>
        chunkserverConfig.Port (cfgs1 ! i) = ?port + of_nat i"
    by auto
  have len1: "length cfgs1 \<le> length ?devs" using d(5,6) by linarith
  have hb1: "hostBlock node ips h ?port ?devs cfgs1"
    unfolding hostBlock_def using len1 d(10) dn by simp
  show ?case
  proof (cases "o1 = Return ()")
    case False
    with d(9) have o1: "o1 = Panic" by (cases o1) auto
    with Cons.prems fd have "out = Panic" "st' = st1" by (simp_all add: Let_def)
    then show ?thesis
      using d hb1 len1
      by (intro exI [of _ "[cfgs1]"] exI [of _ infos1] exI [of _ new1]) auto
  next
    case True
    with Cons.prems fd have rest: "forNodes k c a ips nodes (h + 1) st1 = (out, st')"
      by (simp add: Let_def)
    from True d(7) have g1: "length (filter isJobsGet new1) = length ?devs" by simp
    from Cons.IH [OF rest] obtain blocks infos new where
      ih: "chunkserverConfigs st' = chunkserverConfigs st1 @ concat blocks"
        "job2DeviceInfos st' = job2DeviceInfos st1 @ infos"
        "calls (world st') = calls (world st1) @ new"
        "map nodeName' infos = map chunkserverConfig.NodeName (concat blocks)"
        "length (concat blocks) + length (filter isFailedCreate new) = length (filter isJobsGet new)"
        "length (filter isJobsGet new) \<le> length nodes * length ?devs"
        "out = Return () \<longrightarrow> length (filter isJobsGet new) = length nodes * length ?devs"
        "filter isDelete new = []"
        "out \<noteq> Blocked"
        "length blocks \<le> length nodes"
        "out = Return () \<longrightarrow> length blocks = length nodes"
      and ihb: "\<forall>j<length blocks.
        hostBlock (nodes ! j) ips (h + 1 + of_nat j) ?port ?devs (blocks ! j)"
      and ihf: "filter isFailedCreate new = [] \<and> out = Return () \<longrightarrow>
        (\<forall>b\<in>set blocks. length b = length ?devs)"
      by blast
    have hb: "\<forall>j<length (cfgs1 # blocks).
        hostBlock ((node # nodes) ! j) ips (h + of_nat j) ?port ?devs ((cfgs1 # blocks) ! j)"
    proof (intro allI impI)
      fix j assume "j < length (cfgs1 # blocks)"
      then show "hostBlock ((node # nodes) ! j) ips (h + of_nat j) ?port ?devs ((cfgs1 # blocks) ! j)"
        using hb1 ihb by (cases j) (simp_all add: add.assoc)
    qed
    have ff: "filter isFailedCreate (new1 @ new) = [] \<and> out = Return () \<longrightarrow>
        (\<forall>b\<in>set (cfgs1 # blocks). length b = length ?devs)"
      using ihf d(5) g1 by auto
    show ?thesis
      using d(1-4,8) g1 d(5) ih hb ff
      by (intro exI [of _ "cfgs1 # blocks"] exI [of _ "infos1 @ infos"] exI [of _ "new1 @ new"])
         (simp del: length_Cons set_simps add: length_Cons [where xs = nodes] length_Cons [where xs = blocks])
  qed
qed

lemma configMapsGet_calls:
  "configMapsGet cs ns n w = (r, w1) \<Longrightarrow> calls w1 = calls w @ [CallConfigMapsGet ns n r]"
  by (auto simp: configMapsGet_def split: prod.splits)

lemma createFormatConfigMap_calls:
  "createFormatConfigMap k c w = (r, w1) \<Longrightarrow>
   \<exists>pre. calls w1 = calls w @ pre \<and> filter isJobsGet pre = [] \<and>
     filter isFailedCreate pre = [] \<and> filter isDelete pre = []"
  by (auto simp: createFormatConfigMap_def configMapsCreate_def Let_def
      split: prod.splits sum.splits if_splits)

text \<open>
  A run in explicit mode either returns before the loops, with both lists empty and no
  request about jobs, or runs the outer loop over the valid nodes from empty lists.
\<close>

lemma startProvisioningOverNodes_shape:
  assumes "\<not> UseSelectedNodes (Storage (spec c))"
    and "startProvisioningOverNodes k c ips st = (out, st')"
  shows "(\<exists>pre. job2DeviceInfos st' = [] \<and> chunkserverConfigs st' = [] \<and>
            calls (world st') = calls (world st) @ pre \<and>
            filter isJobsGet pre = [] \<and> filter isFailedCreate pre = [] \<and> filter isDelete pre = [] \<and>
            (out = Return None \<longrightarrow> validNodesOf k c st = []) \<and> out \<noteq> Blocked \<and> out \<noteq> Panic)
       \<or> (\<exists>pre a w ou.
            filter isJobsGet pre = [] \<and> filter isFailedCreate pre = [] \<and> filter isDelete pre = [] \<and>
            calls w = calls (world st) @ pre \<and>
            forNodes k c a ips (validNodesOf k c st) 0
              (st\<lparr>job2DeviceInfos := [], chunkserverConfigs := [], world := w\<rparr>) = (ou, st') \<and>
            out = (case ou of Return _ \<Rightarrow> Return None | Panic \<Rightarrow> Panic | Blocked \<Rightarrow> Blocked))"
proof -
  let ?st0 = "st\<lparr>job2DeviceInfos := [], chunkserverConfigs := []\<rparr>"
  obtain r1 s1 where g1: "GetNodeHostNames k (store (world st)) = (r1, s1)"
    by (cases "GetNodeHostNames k (store (world st))")
  show ?thesis
  proof (cases r1)
    case (Inl err)
    with assms g1 show ?thesis
      by (intro disjI1 exI [of _ "[]"]) (auto simp: startProvisioningOverNodes_def setStore_def)
  next
    case (Inr hostnameMap)
    let ?sn = "map (\<lambda>nodeName. case hostnameMap nodeName of None \<Rightarrow> [] | Some h \<Rightarrow> h)
                 (Nodes (Storage (spec c)))"
    obtain vn s2 where g2: "GetValidNodes k ?sn s1 = (vn, s2)"
      by (cases "GetValidNodes k ?sn s1")
    have vn: "validNodesOf k c st = vn"
      using g1 Inr g2 by (simp add: validNodesOf_def)
    show ?thesis
    proof (cases "vn = []")
      case True
      with assms g1 Inr g2 vn show ?thesis
        by (intro disjI1 exI [of _ "[]"]) (auto simp: startProvisioningOverNodes_def setStore_def)
    next
      case False
      obtain r3 w3 where g3: "createFormatConfigMap k c (world (setStore s2 ?st0)) = (r3, w3)"
        by (cases "createFormatConfigMap k c (world (setStore s2 ?st0))")
      from createFormatConfigMap_calls [OF g3] obtain pre3 where
        p3: "calls w3 = calls (world st) @ pre3" "filter isJobsGet pre3 = []"
          "filter isFailedCreate pre3 = []" "filter isDelete pre3 = []"
        by (auto simp: setStore_def)
      show ?thesis
      proof (cases r3)
        case (Some err)
        with assms g1 Inr g2 False g3 p3 show ?thesis
          by (intro disjI1 exI [of _ pre3]) (auto simp: startProvisioningOverNodes_def)
      next
        case None
        let ?cs = "Clientset (context' c)"
        let ?ns = "NamespacedName.Namespace (namespacedName c)"
        obtain r4 w4 where g4: "configMapsGet ?cs ?ns (EtcdOverrideConfigMapName k) w3 = (r4, w4)"
          by (cases "configMapsGet ?cs ?ns (EtcdOverrideConfigMapName k) w3")
        note c4 = configMapsGet_calls [OF g4]
        show ?thesis
        proof (cases r4)
          case (Inl err)
          with assms g1 Inr g2 False g3 None g4 p3 c4 show ?thesis
            by (intro disjI1 exI [of _ "pre3 @ [CallConfigMapsGet ?ns (EtcdOverrideConfigMapName k) r4]"])
               (auto simp: startProvisioningOverNodes_def)
        next
          case (Inr etcdOverrideCM)
          note r4 = this
          obtain r5 w5 where g5: "configMapsGet ?cs ?ns (MdsOverrideConfigMapName k) w4 = (r5, w5)"
            by (cases "configMapsGet ?cs ?ns (MdsOverrideConfigMapName k) w4")
          note c5 = configMapsGet_calls [OF g5]
          let ?pre = "pre3 @ [CallConfigMapsGet ?ns (EtcdOverrideConfigMapName k) r4,
                             CallConfigMapsGet ?ns (MdsOverrideConfigMapName k) r5]"
          show ?thesis
          proof (cases r5)
            case (Inl err)
            with assms g1 \<open>r1 = Inr hostnameMap\<close> g2 False g3 None g4 r4 g5 p3 c4 c5 show ?thesis
              by (intro disjI1 exI [of _ ?pre]) (auto simp: startProvisioningOverNodes_def)
          next
            case (Inr mdsOverrideCM)
            have pre: "calls w5 = calls (world st) @ ?pre" using p3 c4 c5 by simp
            have "\<exists>a ou. forNodes k c a ips vn 0 (?st0\<lparr>world := w5\<rparr>) = (ou, st') \<and>
                 out = (case ou of Return _ \<Rightarrow> Return None | Panic \<Rightarrow> Panic | Blocked \<Rightarrow> Blocked)"
              using assms g1 \<open>r1 = Inr hostnameMap\<close> g2 False g3 None g4 r4 g5 Inr
              by (auto simp: startProvisioningOverNodes_def Let_def split: prod.splits outcome.splits)
            then obtain a ou where
              "forNodes k c a ips vn 0 (?st0\<lparr>world := w5\<rparr>) = (ou, st')"
              "out = (case ou of Return _ \<Rightarrow> Return None | Panic \<Rightarrow> Panic | Blocked \<Rightarrow> Blocked)"
              by blast
            with pre p3 vn show ?thesis
              by (intro disjI2 exI [of _ ?pre] exI [of _ a] exI [of _ w5] exI [of _ ou]) simp
          qed
        qed
      qed
    qed
  qed
qed

lemma startProvisioningOverNodes_blocks:
  assumes "\<not> UseSelectedNodes (Storage (spec c))"
    and "startProvisioningOverNodes k c ips st = (out, st')"
  shows "\<exists>blocks.
     chunkserverConfigs st' = concat blocks \<and>
     map nodeName' (job2DeviceInfos st') = map chunkserverConfig.NodeName (chunkserverConfigs st') \<and>
     length (chunkserverConfigs st') + length (filter isFailedCreate (newCalls st st')) =
       length (filter isJobsGet (newCalls st st')) \<and>
     length (filter isJobsGet (newCalls st st')) \<le>
       length (validNodesOf k c st) * length (Devices (Storage (spec c))) \<and>
     filter isDelete (newCalls st st') = [] \<and>
     out \<noteq> Blocked \<and>
     length blocks \<le> length (validNodesOf k c st) \<and>
     (out = Return None \<longrightarrow> length blocks = length (validNodesOf k c st)) \<and>
     (\<forall>j<length blocks.
        hostBlock (validNodesOf k c st ! j) ips (of_nat j) (StorageScopeSpec.Port (Storage (spec c)))
          (Devices (Storage (spec c))) (blocks ! j)) \<and>
     (filter isFailedCreate (newCalls st st') = [] \<and> out = Return None \<longrightarrow>
        (\<forall>b\<in>set blocks. length b = length (Devices (Storage (spec c)))))"
proof -
  from startProvisioningOverNodes_shape [OF assms]
  consider
    (early) pre where "job2DeviceInfos st' = []" "chunkserverConfigs st' = []"
      "calls (world st') = calls (world st) @ pre"
      "filter isJobsGet pre = []" "filter isFailedCreate pre = []" "filter isDelete pre = []"
      "out = Return None \<longrightarrow> validNodesOf k c st = []" "out \<noteq> Blocked"
  | (loops) pre a w ou where
      "filter isJobsGet pre = []" "filter isFailedCreate pre = []" "filter isDelete pre = []"
      "calls w = calls (world st) @ pre"
      "forNodes k c a ips (validNodesOf k c st) 0
         (st\<lparr>job2DeviceInfos := [], chunkserverConfigs := [], world := w\<rparr>) = (ou, st')"
      "out = (case ou of Return _ \<Rightarrow> Return None | Panic \<Rightarrow> Panic | Blocked \<Rightarrow> Blocked)"
    by blast
  then show ?thesis
  proof cases
    case early
    then show ?thesis
      by (intro exI [of _ "[]"]) (simp add: newCalls_def)
  next
    case loops
    from forNodes_spec [OF loops(5)] obtain blocks infos new where
      f: "chunkserverConfigs st' = concat blocks"
        "job2DeviceInfos st' = infos"
        "calls (world st') = calls w @ new"
        "map nodeName' infos = map chunkserverConfig.NodeName (concat blocks)"
        "length (concat blocks) + length (filter isFailedCreate new) = length (filter isJobsGet new)"
        "length (filter isJobsGet new) \<le>
           length (validNodesOf k c st) * length (Devices (Storage (spec c)))"
        "filter isDelete new = []"
        "ou \<noteq> Blocked"
        "length blocks \<le> length (validNodesOf k c st)"
        "ou = Return () \<longrightarrow> length blocks = length (validNodesOf k c st)"
      and fb: "\<forall>j<length blocks.
        hostBlock (validNodesOf k c st ! j) ips (0 + of_nat j)
          (StorageScopeSpec.Port (Storage (spec c))) (Devices (Storage (spec c))) (blocks ! j)"
      and ff: "filter isFailedCreate new = [] \<and> ou = Return () \<longrightarrow>
        (\<forall>b\<in>set blocks. length b = length (Devices (Storage (spec c))))"
      by auto
    have nc: "newCalls st st' = pre @ new"
      using f(3) loops(4) by (simp add: newCalls_def)
    have ou: "out = Return None \<longleftrightarrow> ou = Return ()" "out \<noteq> Blocked"
      using loops(6) f(8) by (cases ou; simp)+
    show ?thesis
      using f fb ff nc ou loops(1-3)
      by (intro exI [of _ blocks]) simp
  qed
qed

lemma hostBlock_nth:
  assumes "hostBlock node ips h p devices block" and "i < length block"
  shows "chunkserverConfig.NodeName (block ! i) = ObjectMeta.Name (Node.ObjectMeta node)"
    and "HostSequence (block ! i) = h"
    and "ReplicasSequence (block ! i) = of_nat i"
    and "chunkserverConfig.Port (block ! i) = p + of_nat i"
  using assms unfolding hostBlock_def by blast+

lemma hostBlock_length:
  "hostBlock node ips h p devices block \<Longrightarrow> length block \<le> length devices"
  unfolding hostBlock_def by blast

lemma hostBlock_subseq:
  "hostBlock node ips h p devices block \<Longrightarrow>
   subseq (map DeviceName block) (map DevicesSpec.Name devices)"
  unfolding hostBlock_def by blast

lemma hostBlock_distinct_ports:
  assumes "hostBlock node ips h p devices block" and "length devices < 2 ^ 64"
  shows "distinct (map chunkserverConfig.Port block)"
proof -
  have "chunkserverConfig.Port (block ! i) \<noteq> chunkserverConfig.Port (block ! j)"
    if "i < length block" "j < length block" "i \<noteq> j" for i j
  proof
    assume eq: "chunkserverConfig.Port (block ! i) = chunkserverConfig.Port (block ! j)"
    have "p + of_nat i = p + (of_nat j :: 64 word)"
      using eq hostBlock_nth(4) [OF assms(1) that(1)] hostBlock_nth(4) [OF assms(1) that(2)]
      by simp
    then have "(of_nat i :: 64 word) = of_nat j" by simp
    then have t: "take_bit 64 i = take_bit 64 j"
      using word_of_nat_eq_iff [where 'a = 64, of i j] by simp
    have "i < length devices" "j < length devices"
      using that hostBlock_length [OF assms(1)] by linarith+
    with assms(2) have "i < 2 ^ 64" "j < 2 ^ 64" by linarith+
    then have "take_bit 64 i = i" "take_bit 64 j = j"
      by (simp_all only: take_bit_nat_eq_self)
    with t that(3) show False by simp
  qed
  then show ?thesis
    by (simp add: distinct_conv_nth)
qed

lemma hostBlock_all_devices:
  assumes "hostBlock node ips h p devices block" and "length block = length devices"
  shows "map DeviceName block = map DevicesSpec.Name devices"
  using subseq_same_length [OF hostBlock_subseq [OF assms(1)]] assms(2) by simp

lemma hostBlock_members:
  assumes "hostBlock node ips h p devices block" and "cf \<in> set block"
  shows "chunkserverConfig.NodeName cf = ObjectMeta.Name (Node.ObjectMeta node) \<and>
         DeviceName cf \<in> DevicesSpec.Name ` set devices"
proof -
  from assms(2) obtain i where i: "i < length block" "cf = block ! i"
    by (auto simp: in_set_conv_nth)
  have n: "chunkserverConfig.NodeName cf = ObjectMeta.Name (Node.ObjectMeta node)"
    using hostBlock_nth(1) [OF assms(1) i(1)] i(2) by simp
  have "DeviceName cf \<in> set (map DeviceName block)" using assms(2) by simp
  then obtain y where "y \<in> set (map DevicesSpec.Name devices)" "DeviceName cf = y"
    by (rule list_emb_set [OF hostBlock_subseq [OF assms(1)]])
  with n show ?thesis by simp
qed

text \<open>Running the planner on the inputs defined above.\<close>

lemma testCluster_sel [simp]:
  "UseSelectedNodes (Storage (spec (testCluster u sel ns ds ca))) = u"
  "Nodes (Storage (spec (testCluster u sel ns ds ca))) = ns"
  "Devices (Storage (spec (testCluster u sel ns ds ca))) = ds"
  "SelectedNodes (Storage (spec (testCluster u sel ns ds ca))) = sel"
  "StorageScopeSpec.Port (Storage (spec (testCluster u sel ns ds ca))) = 8200"
  "Enable (SnapShotClone (spec (testCluster u sel ns ds ca))) = False"
  "Clientset (context' (testCluster u sel ns ds ca)) =
     scriptClientset ca None (\<lambda>name. Inr (emptyConfigMap name))"
  "NamespacedName.Namespace (namespacedName (testCluster u sel ns ds ca)) = ''curve''"
  "SetControllerReference_Job (ownerInfo (testCluster u sel ns ds ca)) = Inr"
  "SetControllerReference_ConfigMap (ownerInfo (testCluster u sel ns ds ca)) = Inr"
  by (simp_all add: testCluster_def)

lemma testCollaborators_sel [simp]:
  "GetNodeHostNames testCollaborators s = (Inr (\<lambda>nodeName. Some nodeName), s)"
  "GetValidNodes testCollaborators storageNodes s = (map testNode storageNodes, s)"
  "createFormatVolumeAndMount testCollaborators device = ([], [])"
  by (simp_all add: testCollaborators_def)

lemma testNode_sel [simp]: "ObjectMeta.Name (Node.ObjectMeta (testNode n)) = n"
  by (simp add: testNode_def)

lemma makeJob_test:
  "makeJob testCollaborators (testCluster u sel ns ds ca) n d =
     Inr (madeJob testCollaborators (testCluster u sel ns ds ca) n d)"
  by (simp add: madeJob_def makeJob_def Let_def)

lemma madeJob_test_sel [simp]:
  "ObjectMeta.Name (Job.ObjectMeta (madeJob testCollaborators (testCluster u sel ns ds ca) n d)) =
     PrepareJobName @ ''-'' @ n @ ''-'' @ shortDeviceName (DevicesSpec.Name d)"
  "ObjectMeta.Namespace (Job.ObjectMeta (madeJob testCollaborators (testCluster u sel ns ds ca) n d)) =
     ''curve''"
  by (simp_all add: madeJob_def makeJob_def Let_def)

lemma runPrepareJob_test_absent:
  "runPrepareJob testCollaborators (testCluster u sel ns ds ca) n d \<lparr>store = [], calls = cl\<rparr> =
     (case ca (madeJob testCollaborators (testCluster u sel ns ds ca) n d) of
        Inl err \<Rightarrow>
          (Return (madeJob testCollaborators (testCluster u sel ns ds ca) n d, Some err),
           \<lparr>store = [],
            calls = cl @
              [CallJobsGet ''curve'' (PrepareJobName @ ''-'' @ n @ ''-'' @ shortDeviceName (DevicesSpec.Name d))
                 (Inl NotFound),
               CallJobsCreate ''curve'' (madeJob testCollaborators (testCluster u sel ns ds ca) n d)
                 (Inl err)]\<rparr>)
      | Inr j \<Rightarrow>
          (Return (madeJob testCollaborators (testCluster u sel ns ds ca) n d, None),
           \<lparr>store = [],
            calls = cl @
              [CallJobsGet ''curve'' (PrepareJobName @ ''-'' @ n @ ''-'' @ shortDeviceName (DevicesSpec.Name d))
                 (Inl NotFound),
               CallJobsCreate ''curve'' (madeJob testCollaborators (testCluster u sel ns ds ca) n d)
                 (Inr j)]\<rparr>))"
  by (simp add: runPrepareJob_def makeJob_test Let_def jobsGet_def jobsCreate_def split: sum.splits)

lemma sda_sel [simp]: "DevicesSpec.Name sda = ''/dev/sda''"
  by (simp add: sda_def)

lemma sdb_sel [simp]: "DevicesSpec.Name sdb = ''/dev/sdb''"
  by (simp add: sdb_def)

lemma leadingSpace_slash [simp]: "leadingSpace (CHR ''/'' # s) = 0"
  by (simp add: leadingSpace_def spaceEncodings_def)

lemma trimLeftSpace_slash [simp]: "trimLeftSpace (CHR ''/'' # s) = CHR ''/'' # s"
  by (subst trimLeftSpace.simps) simp

lemma shortDeviceName_sda [simp]: "shortDeviceName ''/dev/sda'' = ''sda''"
proof -
  have "trailingSpace ''/dev/sda'' = 0"
    by (simp add: trailingSpace_def spaceEncodings_def suffix_def)
  then have "trimRightSpace ''/dev/sda'' = ''/dev/sda''"
    by (subst trimRightSpace.simps) simp
  then show ?thesis
    by (simp add: shortDeviceName_def TrimSpace_def TrimRight_def)
qed

lemma shortDeviceName_sdb [simp]: "shortDeviceName ''/dev/sdb'' = ''sdb''"
proof -
  have "trailingSpace ''/dev/sdb'' = 0"
    by (simp add: trailingSpace_def spaceEncodings_def suffix_def)
  then have "trimRightSpace ''/dev/sdb'' = ''/dev/sdb''"
    by (subst trimRightSpace.simps) simp
  then show ?thesis
    by (simp add: shortDeviceName_def TrimSpace_def TrimRight_def)
qed

lemmas run_test_defs =
  startProvisioningOverNodes_def Let_def createFormatConfigMap_def configMapsCreate_def
  configMapsGet_def setStore_def initialState_def runPrepareJob_test_absent

text \<open>
  The run over two nodes and two devices on a store that accepts every create.
\<close>

lemma run22_configs:
  "map (\<lambda>cf. (chunkserverConfig.NodeName cf, DeviceName cf, HostSequence cf, ReplicasSequence cf,
              chunkserverConfig.Port cf))
     (chunkserverConfigs (snd (startProvisioningOverNodes testCollaborators
        (testCluster False [] [''node1'', ''node2''] [sda, sdb] Inr)
        [(''node1'', ''10.0.0.1''), (''node2'', ''10.0.0.2'')] (initialState [])))) =
   [(''node1'', ''/dev/sda'', 0, 0, 8200), (''node1'', ''/dev/sdb'', 0, 1, 8201),
    (''node2'', ''/dev/sda'', 1, 0, 8200), (''node2'', ''/dev/sdb'', 1, 1, 8201)]"
  by (simp add: run_test_defs)

text \<open>
  Claim C1, as amended. A run of \<open>startProvisioningOverNodes\<close> in pre-selected mode returns
  nil and changes nothing, so the lists stay as the previous run left them. After a run in
  explicit mode, from any state: the list of task records and the list of config records
  have the same length; the two records at the same position carry the same node name;
  every config record carries the name of a valid node of this run and the name of a
  configured device; the number of records plus the number of creates that the store
  refused equals the number of submissions (one job lookup each), so a submission either
  adds one record to both lists or, when it fails, none to either; and there are at most as
  many submissions as there are pairs of a valid node and a device. What the pointer
  \<^verbatim>\<open>device\<close> of a task record refers to is not part of the statement.
\<close>

theorem startProvisioningOverNodes_paired_lists:
  assumes "startProvisioningOverNodes k c nodeNameIP st = (out, st')"
  shows "if UseSelectedNodes (Storage (spec c)) then out = Return None \<and> st' = st
         else
           length (job2DeviceInfos st') = length (chunkserverConfigs st') \<and>
           map nodeName' (job2DeviceInfos st') =
             map chunkserverConfig.NodeName (chunkserverConfigs st') \<and>
           length (chunkserverConfigs st') + length (filter isFailedCreate (newCalls st st')) =
             length (filter isJobsGet (newCalls st st')) \<and>
           length (filter isJobsGet (newCalls st st')) \<le>
             length (validNodesOf k c st) * length (Devices (Storage (spec c))) \<and>
           (\<forall>cf\<in>set (chunkserverConfigs st').
              chunkserverConfig.NodeName cf \<in>
                (\<lambda>node. ObjectMeta.Name (Node.ObjectMeta node)) ` set (validNodesOf k c st) \<and>
              DeviceName cf \<in> DevicesSpec.Name ` set (Devices (Storage (spec c))))"
proof (cases "UseSelectedNodes (Storage (spec c))")
  case True
  with assms show ?thesis by (simp add: startProvisioningOverNodes_def)
next
  case False
  from startProvisioningOverNodes_blocks [OF False assms] obtain blocks where
    b: "chunkserverConfigs st' = concat blocks"
      "map nodeName' (job2DeviceInfos st') = map chunkserverConfig.NodeName (chunkserverConfigs st')"
      "length (chunkserverConfigs st') + length (filter isFailedCreate (newCalls st st')) =
         length (filter isJobsGet (newCalls st st'))"
      "length (filter isJobsGet (newCalls st st')) \<le>
         length (validNodesOf k c st) * length (Devices (Storage (spec c)))"
      "length blocks \<le> length (validNodesOf k c st)"
    and hb: "\<forall>j<length blocks.
        hostBlock (validNodesOf k c st ! j) nodeNameIP (of_nat j)
          (StorageScopeSpec.Port (Storage (spec c))) (Devices (Storage (spec c))) (blocks ! j)"
    by blast
  have len: "length (job2DeviceInfos st') = length (chunkserverConfigs st')"
    using b(2) by (metis length_map)
  have mem: "chunkserverConfig.NodeName cf \<in>
                (\<lambda>node. ObjectMeta.Name (Node.ObjectMeta node)) ` set (validNodesOf k c st) \<and>
              DeviceName cf \<in> DevicesSpec.Name ` set (Devices (Storage (spec c)))"
    if "cf \<in> set (chunkserverConfigs st')" for cf
  proof -
    from that b(1) obtain blk where "blk \<in> set blocks" "cf \<in> set blk" by auto
    then obtain j where j: "j < length blocks" "blk = blocks ! j"
      by (auto simp: in_set_conv_nth)
    with hb have "hostBlock (validNodesOf k c st ! j) nodeNameIP (of_nat j)
          (StorageScopeSpec.Port (Storage (spec c))) (Devices (Storage (spec c))) blk"
      by simp
    from hostBlock_members [OF this \<open>cf \<in> set blk\<close>] j(1) b(5) show ?thesis
      by auto
  qed
  show ?thesis
    using False len b(2,3,4) mem by simp
qed

text \<open>
  Claim C6, as amended. After a run in explicit mode the config records are the
  concatenation of one block per valid node reached, in the order of the valid nodes (all
  of them when the run returns nil). The records of block \<open>j\<close> have \<open>HostSequence = j\<close>; within
  a block \<open>ReplicasSequence\<close> counts 0, 1, 2, ... and the port of a record is the base port
  plus its \<open>ReplicasSequence\<close>, that is, plus the number of devices recorded before it on
  that host, so the ports of one host are distinct. When the store refused no create and
  the run returned nil, every block has one record per configured device in order, and
  then the port of a device is the base port plus its index. With two valid nodes and two
  devices this gives the host sequences 0, 0, 1, 1 and the replica sequences 0, 1, 0, 1.
\<close>

theorem startProvisioningOverNodes_sequences:
  assumes "\<not> UseSelectedNodes (Storage (spec c))"
    and "startProvisioningOverNodes k c nodeNameIP st = (out, st')"
  shows "(\<exists>blocks.
     chunkserverConfigs st' = concat blocks \<and>
     length blocks \<le> length (validNodesOf k c st) \<and>
     (out = Return None \<longrightarrow> length blocks = length (validNodesOf k c st)) \<and>
     (\<forall>j<length blocks.
        hostBlock (validNodesOf k c st ! j) nodeNameIP (of_nat j)
          (StorageScopeSpec.Port (Storage (spec c))) (Devices (Storage (spec c))) (blocks ! j)) \<and>
     (length (Devices (Storage (spec c))) < 2 ^ 64 \<longrightarrow>
        (\<forall>b\<in>set blocks. distinct (map chunkserverConfig.Port b))) \<and>
     (filter isFailedCreate (newCalls st st') = [] \<and> out = Return None \<longrightarrow>
        (\<forall>b\<in>set blocks. map DeviceName b = map DevicesSpec.Name (Devices (Storage (spec c)))))) \<and>
   (filter isFailedCreate (newCalls st st') = [] \<and> out = Return None \<and>
    length (validNodesOf k c st) = 2 \<and> length (Devices (Storage (spec c))) = 2 \<longrightarrow>
      map HostSequence (chunkserverConfigs st') = [0, 0, 1, 1] \<and>
      map ReplicasSequence (chunkserverConfigs st') = [0, 1, 0, 1])"
proof -
  let ?devs = "Devices (Storage (spec c))"
  let ?port = "StorageScopeSpec.Port (Storage (spec c))"
  let ?vn = "validNodesOf k c st"
  from startProvisioningOverNodes_blocks [OF assms] obtain blocks where
    b: "chunkserverConfigs st' = concat blocks"
      "length blocks \<le> length ?vn"
      "out = Return None \<longrightarrow> length blocks = length ?vn"
    and hb: "\<forall>j<length blocks. hostBlock (?vn ! j) nodeNameIP (of_nat j) ?port ?devs (blocks ! j)"
    and full: "filter isFailedCreate (newCalls st st') = [] \<and> out = Return None \<longrightarrow>
        (\<forall>b\<in>set blocks. length b = length ?devs)"
    by blast
  have blk: "\<exists>j<length blocks. hostBlock (?vn ! j) nodeNameIP (of_nat j) ?port ?devs blk"
    if "blk \<in> set blocks" for blk
    using that hb by (auto simp: in_set_conv_nth)
  have dist: "distinct (map chunkserverConfig.Port blk)"
    if "length ?devs < 2 ^ 64" "blk \<in> set blocks" for blk
    using blk [OF that(2)] hostBlock_distinct_ports that(1) by blast
  have names: "map DeviceName blk = map DevicesSpec.Name ?devs"
    if "filter isFailedCreate (newCalls st st') = []" "out = Return None" "blk \<in> set blocks" for blk
  proof -
    from full that have "length blk = length ?devs" by blast
    with blk [OF that(3)] hostBlock_all_devices show ?thesis by blast
  qed
  have scen: "map HostSequence (chunkserverConfigs st') = [0, 0, 1, 1] \<and>
              map ReplicasSequence (chunkserverConfigs st') = [0, 1, 0, 1]"
    if nf: "filter isFailedCreate (newCalls st st') = []" and r: "out = Return None"
      and n2: "length ?vn = 2" and d2: "length ?devs = 2"
  proof -
    from b(3) r n2 have lb: "length blocks = 2" by simp
    then obtain b0 b1 where bl: "blocks = [b0, b1]"
      by (metis (no_types, opaque_lifting) One_nat_def Suc_1 length_0_conv length_Suc_conv)
    from full nf r d2 bl have l0: "length b0 = 2" and l1: "length b1 = 2" by auto
    from hb bl have h0: "hostBlock (?vn ! 0) nodeNameIP (of_nat 0) ?port ?devs b0"
      and h1: "hostBlock (?vn ! 1) nodeNameIP (of_nat 1) ?port ?devs b1"
      by (auto simp: nth_Cons')
    from l0 obtain x0 x1 where b0: "b0 = [x0, x1]"
      by (metis (no_types, opaque_lifting) One_nat_def Suc_1 length_0_conv length_Suc_conv)
    from l1 obtain y0 y1 where b1: "b1 = [y0, y1]"
      by (metis (no_types, opaque_lifting) One_nat_def Suc_1 length_0_conv length_Suc_conv)
    have "HostSequence x0 = 0" "ReplicasSequence x0 = 0"
      using hostBlock_nth(2,3) [OF h0, of 0] b0 by simp_all
    moreover have "HostSequence x1 = 0" "ReplicasSequence x1 = 1"
      using hostBlock_nth(2,3) [OF h0, of 1] b0 by simp_all
    moreover have "HostSequence y0 = 1" "ReplicasSequence y0 = 0"
      using hostBlock_nth(2,3) [OF h1, of 0] b1 by simp_all
    moreover have "HostSequence y1 = 1" "ReplicasSequence y1 = 1"
      using hostBlock_nth(2,3) [OF h1, of 1] b1 by simp_all
    ultimately show ?thesis using b(1) bl b0 b1 by simp
  qed
  have "\<exists>blocks.
     chunkserverConfigs st' = concat blocks \<and>
     length blocks \<le> length ?vn \<and>
     (out = Return None \<longrightarrow> length blocks = length ?vn) \<and>
     (\<forall>j<length blocks. hostBlock (?vn ! j) nodeNameIP (of_nat j) ?port ?devs (blocks ! j)) \<and>
     (length ?devs < 2 ^ 64 \<longrightarrow> (\<forall>b\<in>set blocks. distinct (map chunkserverConfig.Port b))) \<and>
     (filter isFailedCreate (newCalls st st') = [] \<and> out = Return None \<longrightarrow>
        (\<forall>b\<in>set blocks. map DeviceName b = map DevicesSpec.Name ?devs))"
    using b hb dist names by (intro exI [of _ blocks]) blast
  with scen show ?thesis by blast
qed

text \<open>
  Claim C9, as amended. In explicit mode the result of a run, lists included, does not
  depend on what the two lists held before: the run starts by emptying them. In
  pre-selected mode the run returns nil at once and leaves the state, lists included, as
  it was.
\<close>

theorem startProvisioningOverNodes_reset:
  "(\<not> UseSelectedNodes (Storage (spec c)) \<longrightarrow>
      startProvisioningOverNodes k c nodeNameIP st =
      startProvisioningOverNodes k c nodeNameIP
        (st\<lparr>job2DeviceInfos := [], chunkserverConfigs := []\<rparr>)) \<and>
   (UseSelectedNodes (Storage (spec c)) \<longrightarrow>
      startProvisioningOverNodes k c nodeNameIP st = (Return None, st))"
  by (simp add: startProvisioningOverNodes_def)

text \<open>
  Claim C7. \<open>Start\<close> checks the specification first. In explicit mode with no node or no
  device it returns the configuration error, and in pre-selected mode with no selected
  node it returns the other configuration error; in both cases the state is unchanged: no
  call to the store, no collaborator called, no list touched.
\<close>

theorem Start_validates_first:
  "(\<not> UseSelectedNodes (Storage (spec c)) \<and>
      (Nodes (Storage (spec c)) = [] \<or> Devices (Storage (spec c)) = []) \<longrightarrow>
      Start k c nodeNameIP st =
        (Return (Some (ErrorsNew ''useSelectedNodes is set to false but no node specified'')), st)) \<and>
   (UseSelectedNodes (Storage (spec c)) \<and> SelectedNodes (Storage (spec c)) = [] \<longrightarrow>
      Start k c nodeNameIP st =
        (Return (Some (ErrorsNew
           ''useSelectedNodes is set to false but selectedNodes not be specified'')), st))"
  by (simp add: Start_def)

lemma Split_dev: "Split (''/dev/'' @ x) CHR ''/'' = [] # ''dev'' # Split x CHR ''/''"
  by simp

text \<open>
  Claim C10 fails on the code. \<open>getPodLabels\<close> takes the second piece of the device path
  split at \<^verbatim>\<open>"/"\<close>, which for every path under \<^verbatim>\<open>/dev/\<close> is \<^verbatim>\<open>"dev"\<close>: any two such devices
  on the same node get the same label set.
\<close>

theorem getPodLabels_same_for_dev_paths:
  "getPodLabels c nodeName (''/dev/'' @ x) = getPodLabels c nodeName (''/dev/'' @ y)"
  by (simp add: getPodLabels_def Let_def)

theorem startProvisioningOverNodes_sequences_witness:
  "\<not> UseSelectedNodes (Storage (spec (testCluster False [] [''node1'', ''node2''] [sda, sdb] Inr))) \<and>
   length (Devices (Storage (spec (testCluster False [] [''node1'', ''node2''] [sda, sdb] Inr)))) < 2 ^ 64 \<and>
   fst (startProvisioningOverNodes testCollaborators
          (testCluster False [] [''node1'', ''node2''] [sda, sdb] Inr)
          [(''node1'', ''10.0.0.1''), (''node2'', ''10.0.0.2'')] (initialState [])) = Return None \<and>
   map HostSequence (chunkserverConfigs (snd (startProvisioningOverNodes testCollaborators
          (testCluster False [] [''node1'', ''node2''] [sda, sdb] Inr)
          [(''node1'', ''10.0.0.1''), (''node2'', ''10.0.0.2'')] (initialState [])))) = [0, 0, 1, 1] \<and>
   map ReplicasSequence (chunkserverConfigs (snd (startProvisioningOverNodes testCollaborators
          (testCluster False [] [''node1'', ''node2''] [sda, sdb] Inr)
          [(''node1'', ''10.0.0.1''), (''node2'', ''10.0.0.2'')] (initialState [])))) = [0, 1, 0, 1]"
proof -
  let ?c = "testCluster False [] [''node1'', ''node2''] [sda, sdb] Inr"
  let ?ips = "[(''node1'', ''10.0.0.1''), (''node2'', ''10.0.0.2'')]"
  let ?st = "initialState [] :: (error + Job) list state"
  let ?run = "startProvisioningOverNodes testCollaborators ?c ?ips ?st"
  have h1: "\<not> UseSelectedNodes (Storage (spec ?c))" by simp
  have h2: "?run = (fst ?run, snd ?run)" by simp
  have h3: "length (Devices (Storage (spec ?c))) < 2 ^ 64" by simp
  have r: "fst ?run = Return None"
    by (simp add: run_test_defs)
  have nf: "filter isFailedCreate (newCalls ?st (snd ?run)) = []"
    by (simp add: run_test_defs newCalls_def)
  have n2: "length (validNodesOf testCollaborators ?c ?st) = 2"
    by (simp add: validNodesOf_def)
  have d2: "length (Devices (Storage (spec ?c))) = 2" by simp
  have "map HostSequence (chunkserverConfigs (snd ?run)) = [0, 0, 1, 1] \<and>
        map ReplicasSequence (chunkserverConfigs (snd ?run)) = [0, 1, 0, 1]"
    by (rule mp [OF startProvisioningOverNodes_sequences [OF h1 h2, THEN conjunct2]])
       (intro conjI nf r n2 d2)
  with h1 h3 r show ?thesis by (intro conjI) simp_all
qed

text \<open>
  The claim C6 as stated fails when a submission fails: with the devices \<^verbatim>\<open>/dev/sda\<close> and
  \<^verbatim>\<open>/dev/sdb\<close> and the create for \<^verbatim>\<open>/dev/sda\<close> refused, the device \<^verbatim>\<open>/dev/sdb\<close>, at index 1,
  gets the base port itself.
\<close>

theorem port_is_not_device_index_counterexample:
  "Devices (Storage (spec (testCluster False [] [''node1''] [sda, sdb]
       (rejecting ''prepare-chunkfile-node1-sda'')))) ! 1 = sdb \<and>
   map (\<lambda>cf. (DeviceName cf, ReplicasSequence cf, chunkserverConfig.Port cf))
     (chunkserverConfigs (snd (startProvisioningOverNodes testCollaborators
        (testCluster False [] [''node1''] [sda, sdb] (rejecting ''prepare-chunkfile-node1-sda''))
        [(''node1'', ''10.0.0.1'')] (initialState [])))) =
   [(''/dev/sdb'', 0, StorageScopeSpec.Port (Storage (spec (testCluster False [] [''node1''] [sda, sdb]
       (rejecting ''prepare-chunkfile-node1-sda'')))) + 0)]"
  by (simp add: run_test_defs rejecting_def PrepareJobName_def)

theorem startProvisioningOverNodes_paired_lists_witness:
  "\<not> UseSelectedNodes (Storage (spec (testCluster False [] [''node1'', ''node2''] [sda, sdb]
        (rejecting ''prepare-chunkfile-node2-sdb'')))) \<and>
   length (chunkserverConfigs (snd (startProvisioningOverNodes testCollaborators
        (testCluster False [] [''node1'', ''node2''] [sda, sdb] (rejecting ''prepare-chunkfile-node2-sdb''))
        [(''node1'', ''10.0.0.1''), (''node2'', ''10.0.0.2'')] (initialState [])))) = 3 \<and>
   length (job2DeviceInfos (snd (startProvisioningOverNodes testCollaborators
        (testCluster False [] [''node1'', ''node2''] [sda, sdb] (rejecting ''prepare-chunkfile-node2-sdb''))
        [(''node1'', ''10.0.0.1''), (''node2'', ''10.0.0.2'')] (initialState [])))) =
   length (chunkserverConfigs (snd (startProvisioningOverNodes testCollaborators
        (testCluster False [] [''node1'', ''node2''] [sda, sdb] (rejecting ''prepare-chunkfile-node2-sdb''))
        [(''node1'', ''10.0.0.1''), (''node2'', ''10.0.0.2'')] (initialState []))))"
proof -
  let ?c = "testCluster False [] [''node1'', ''node2''] [sda, sdb] (rejecting ''prepare-chunkfile-node2-sdb'')"
  let ?ips = "[(''node1'', ''10.0.0.1''), (''node2'', ''10.0.0.2'')]"
  let ?st = "initialState [] :: (error + Job) list state"
  let ?run = "startProvisioningOverNodes testCollaborators ?c ?ips ?st"
  have h1: "?run = (fst ?run, snd ?run)" by simp
  have h2: "\<not> UseSelectedNodes (Storage (spec ?c))" by simp
  have ev: "length (chunkserverConfigs (snd ?run)) = 3"
    by (simp add: run_test_defs rejecting_def PrepareJobName_def)
  from startProvisioningOverNodes_paired_lists [OF h1] h2
  have "length (job2DeviceInfos (snd ?run)) = length (chunkserverConfigs (snd ?run))"
    by simp
  with h2 ev show ?thesis by (intro conjI)
qed

text \<open>
  The claim C1 as stated fails for a run in pre-selected mode: after a run in explicit mode
  that recorded one device, a run in pre-selected mode over a specification without nodes
  and devices ends with one record in the list, and no pair of a valid node and a device.
\<close>

theorem stale_lists_exceed_pairs_counterexample:
  "length (chunkserverConfigs (snd (startProvisioningOverNodes testCollaborators
       (testCluster True [SelectedNode] [] [] Inr) []
       (snd (startProvisioningOverNodes testCollaborators
          (testCluster False [] [''node1''] [sda] Inr) [(''node1'', ''10.0.0.1'')] (initialState [])))))) = 1 \<and>
   length (validNodesOf testCollaborators (testCluster True [SelectedNode] [] [] Inr)
       (snd (startProvisioningOverNodes testCollaborators
          (testCluster False [] [''node1''] [sda] Inr) [(''node1'', ''10.0.0.1'')] (initialState [])))) *
   length (Devices (Storage (spec (testCluster True [SelectedNode] [] [] Inr)))) = 0"
  by (simp add: run_test_defs)

theorem startProvisioningOverNodes_reset_witness:
  "\<not> UseSelectedNodes (Storage (spec (testCluster False [] [''node1''] [sda] Inr))) \<and>
   startProvisioningOverNodes testCollaborators (testCluster False [] [''node1''] [sda] Inr)
     [(''node1'', ''10.0.0.1'')]
     (snd (startProvisioningOverNodes testCollaborators (testCluster False [] [''node1''] [sdb] Inr)
        [(''node1'', ''10.0.0.1'')] (initialState []))) =
   startProvisioningOverNodes testCollaborators (testCluster False [] [''node1''] [sda] Inr)
     [(''node1'', ''10.0.0.1'')]
     ((snd (startProvisioningOverNodes testCollaborators (testCluster False [] [''node1''] [sdb] Inr)
        [(''node1'', ''10.0.0.1'')] (initialState [])))\<lparr>job2DeviceInfos := [], chunkserverConfigs := []\<rparr>) \<and>
   UseSelectedNodes (Storage (spec (testCluster True [SelectedNode] [''node1''] [sda] Inr))) \<and>
   startProvisioningOverNodes testCollaborators (testCluster True [SelectedNode] [''node1''] [sda] Inr)
     [(''node1'', ''10.0.0.1'')] (initialState []) = (Return None, initialState [])"
proof -
  let ?st1 = "snd (startProvisioningOverNodes testCollaborators (testCluster False [] [''node1''] [sdb] Inr)
        [(''node1'', ''10.0.0.1'')] (initialState []))"
  have h1: "\<not> UseSelectedNodes (Storage (spec (testCluster False [] [''node1''] [sda] Inr)))" by simp
  have h2: "UseSelectedNodes (Storage (spec (testCluster True [SelectedNode] [''node1''] [sda] Inr)))" by simp
  note a = startProvisioningOverNodes_reset [of "testCluster False [] [''node1''] [sda] Inr"
      testCollaborators "[(''node1'', ''10.0.0.1'')]" ?st1, THEN conjunct1, THEN mp, OF h1]
  note b = startProvisioningOverNodes_reset [of "testCluster True [SelectedNode] [''node1''] [sda] Inr"
      testCollaborators "[(''node1'', ''10.0.0.1'')]" "initialState []", THEN conjunct2, THEN mp, OF h2]
  from h1 a h2 b show ?thesis by (intro conjI)
qed

text \<open>
  The claim C9 as stated fails in pre-selected mode: the records of the previous run are
  still in both lists after the run.
\<close>

theorem preselected_run_keeps_records_counterexample:
  "map DeviceName (chunkserverConfigs (snd (startProvisioningOverNodes testCollaborators
       (testCluster True [SelectedNode] [''node1''] [sdb] Inr) [(''node1'', ''10.0.0.1'')]
       (snd (startProvisioningOverNodes testCollaborators
          (testCluster False [] [''node1''] [sda] Inr) [(''node1'', ''10.0.0.1'')] (initialState [])))))) =
     [''/dev/sda''] \<and>
   length (job2DeviceInfos (snd (startProvisioningOverNodes testCollaborators
       (testCluster True [SelectedNode] [''node1''] [sdb] Inr) [(''node1'', ''10.0.0.1'')]
       (snd (startProvisioningOverNodes testCollaborators
          (testCluster False [] [''node1''] [sda] Inr) [(''node1'', ''10.0.0.1'')] (initialState [])))))) = 1"
  by (simp add: run_test_defs)

theorem Start_validates_first_witness:
  "\<not> UseSelectedNodes (Storage (spec (testCluster False [] [''node1''] [] Inr))) \<and>
   Devices (Storage (spec (testCluster False [] [''node1''] [] Inr))) = [] \<and>
   Start testCollaborators (testCluster False [] [''node1''] [] Inr) [(''node1'', ''10.0.0.1'')]
     (initialState []) =
     (Return (Some (ErrorsNew ''useSelectedNodes is set to false but no node specified'')),
      initialState []) \<and>
   UseSelectedNodes (Storage (spec (testCluster True [] [''node1''] [sda] Inr))) \<and>
   SelectedNodes (Storage (spec (testCluster True [] [''node1''] [sda] Inr))) = [] \<and>
   Start testCollaborators (testCluster True [] [''node1''] [sda] Inr) [(''node1'', ''10.0.0.1'')]
     (initialState []) =
     (Return (Some (ErrorsNew
        ''useSelectedNodes is set to false but selectedNodes not be specified'')),
      initialState [])"
  using Start_validates_first [of "testCluster False [] [''node1''] [] Inr" testCollaborators
      "[(''node1'', ''10.0.0.1'')]" "initialState []"]
    Start_validates_first [of "testCluster True [] [''node1''] [sda] Inr" testCollaborators
      "[(''node1'', ''10.0.0.1'')]" "initialState []"]
  by simp

text \<open>
  Claim C8 fails on the code. \<open>runPrepareJob\<close> never sends a delete, whatever its input. On
  a store that holds the job with no active instance it looks the job up and creates the
  new one, while \<open>RunReplaceableJob\<close> without forced replacement, on the same store and the
  same job, deletes the job found before it creates.
\<close>

theorem runPrepareJob_never_deletes:
  "filter isDelete (drop (length (calls w)) (calls (snd (runPrepareJob k c nodeName device w)))) = [] \<and>
   filter isDelete (calls (snd (runPrepareJob testCollaborators
      (testCluster False [] [''node1''] [sda] Inr) ''node1'' sda
      \<lparr>store = [Inr (testJob ''curve'' ''prepare-chunkfile-node1-sda'' 0 1)], calls = []\<rparr>))) = [] \<and>
   filter isDelete (calls (snd (RunReplaceableJob (scriptClientset Inr None (\<lambda>name. Inr (emptyConfigMap name)))
      (madeJob testCollaborators (testCluster False [] [''node1''] [sda] Inr) ''node1'' sda) False
      \<lparr>store = [Inr (testJob ''curve'' ''prepare-chunkfile-node1-sda'' 0 1)], calls = []\<rparr>))) =
     [CallJobsDelete ''curve'' ''prepare-chunkfile-node1-sda'' deleteOptions None]"
proof -
  obtain out w' where r: "runPrepareJob k c nodeName device w = (out, w')"
    by (cases "runPrepareJob k c nodeName device w")
  from runPrepareJob_spec [OF r] have
    "filter isDelete (drop (length (calls w)) (calls (snd (runPrepareJob k c nodeName device w)))) = []"
    using r by auto
  moreover have "filter isDelete (calls (snd (runPrepareJob testCollaborators
      (testCluster False [] [''node1''] [sda] Inr) ''node1'' sda
      \<lparr>store = [Inr (testJob ''curve'' ''prepare-chunkfile-node1-sda'' 0 1)], calls = []\<rparr>))) = []"
    by (simp add: runPrepareJob_def makeJob_test Let_def jobsGet_def jobsCreate_def)
  moreover have "filter isDelete (calls (snd (RunReplaceableJob
      (scriptClientset Inr None (\<lambda>name. Inr (emptyConfigMap name)))
      (madeJob testCollaborators (testCluster False [] [''node1''] [sda] Inr) ''node1'' sda) False
      \<lparr>store = [Inr (testJob ''curve'' ''prepare-chunkfile-node1-sda'' 0 1)], calls = []\<rparr>))) =
     [CallJobsDelete ''curve'' ''prepare-chunkfile-node1-sda'' deleteOptions None]"
    by (simp add: RunReplaceableJob_def Let_def DeleteBatchJob_def DeleteBatchJob_loop.simps
        jobsGet_def jobsDelete_def jobsCreate_def sleep_def PrepareJobName_def)
  ultimately show ?thesis by (intro conjI)
qed

text \<open>
  The pointers of the task records. All the records of one node point to the one variable
  of that node's device loop, which after the loop holds the last device: with two devices
  both task records read \<^verbatim>\<open>/dev/sdb\<close>, while the config records name \<^verbatim>\<open>/dev/sda\<close> and
  \<^verbatim>\<open>/dev/sdb\<close>.
\<close>

lemma range_variable_is_shared:
  "map (\<lambda>info. DevicesSpec.Name
          (deviceVars (snd (startProvisioningOverNodes testCollaborators
             (testCluster False [] [''node1''] [sda, sdb] Inr) [(''node1'', ''10.0.0.1'')]
             (initialState []))) ! device' info))
     (job2DeviceInfos (snd (startProvisioningOverNodes testCollaborators
        (testCluster False [] [''node1''] [sda, sdb] Inr) [(''node1'', ''10.0.0.1'')]
        (initialState [])))) = [''/dev/sdb'', ''/dev/sdb''] \<and>
   map DeviceName (chunkserverConfigs (snd (startProvisioningOverNodes testCollaborators
        (testCluster False [] [''node1''] [sda, sdb] Inr) [(''node1'', ''10.0.0.1'')]
        (initialState [])))) = [''/dev/sda'', ''/dev/sdb'']"
  by (simp add: run_test_defs)

end
